theory Spec2Isabelle
  imports Complex_Main "HOL-Library.Sublist"
begin

section \<open>Python values, exceptions and the outside world\<close>

text \<open>
  The scripts of voice-koereq are flat procedures: they load a YAML file, test whether
  files exist, start the \<^verbatim>\<open>gh\<close> and \<^verbatim>\<open>git\<close> command-line tools, print, sleep and write one
  JSON file. The model makes each of these effects an event of a trace, and each uncaught
  exception a value.

  A Python \<^verbatim>\<open>str\<close> is a \<^typ>\<open>string\<close>. The scripts' literals that are not ASCII (Japanese text,
  emoji) are written as their UTF-8 bytes, so that concatenation of strings is concatenation
  of lists.
\<close>

datatype py_error =
    KeyError
  | TypeError
  | AttributeError
  | ValueError
  | ZeroDivisionError
  | JSONDecodeError
  | EOFError
  | OSError string

text \<open>
  The values \<^verbatim>\<open>yaml.safe_load\<close> returns, restricted to nulls, booleans, integers, strings,
  sequences and mappings with string keys. A mapping is the association list of its items in
  document order, with distinct keys.
\<close>

datatype yaml =
    YNull
  | YBool bool
  | YInt int
  | YStr string
  | YSeq "yaml list"
  | YMap "(string \<times> yaml) list"

text \<open>The numbers of the scripts, and what they put into the JSON report: numbers and lists of
  loaded values. A float is given by its value.\<close>

datatype pynum = PInt int | PFloat rat

datatype pyval = PNum pynum | PList "yaml list"

record completed =
  returncode :: int
  stdout :: string
  stderr :: string

datatype event =
    Print string
  | Run "string list" "string + completed"
  | Sleep nat
  | Dump string "(string \<times> pyval) list"
  | Ask string string

text \<open>
  The environment of a run. \<open>path_exists\<close> is the file system as \<^verbatim>\<open>Path.exists\<close> sees it, taken
  as fixed during one run. \<open>subprocess_run\<close> is the outcome of starting a command: the
  completed process, or the message of the OSError of a program that could not be started; it
  may depend on everything the run did before. \<open>command_writes\<close> is what a started command
  does to the local file system: the files it creates or modifies. \<open>json_loads\<close> is
  \<^verbatim>\<open>json.loads\<close>, whose values are written in the type of loaded documents. \<open>render\<close> is
  Python's \<^verbatim>\<open>str()\<close> on sequences and mappings, \<open>format_1f\<close> is the format \<^verbatim>\<open>{:.1f}\<close>, \<open>strip\<close> is
  \<^verbatim>\<open>str.strip\<close>, \<open>parse_int\<close> is \<^verbatim>\<open>int\<close> on a string, \<open>now\<close> is the formatted clock and \<open>answer\<close> is
  what the user types at a prompt, or the EOFError of a closed input.
\<close>

record env =
  path_exists :: "string \<Rightarrow> bool"
  subprocess_run :: "event list \<Rightarrow> string list \<Rightarrow> string + completed"
  command_writes :: "event list \<Rightarrow> string list \<Rightarrow> string list"
  render :: "yaml \<Rightarrow> string"
  format_1f :: "rat \<Rightarrow> string"
  strip :: "string \<Rightarrow> string"
  parse_int :: "string \<Rightarrow> py_error + int"
  now :: string
  json_loads :: "string \<Rightarrow> py_error + yaml"
  answer :: "event list \<Rightarrow> string \<Rightarrow> py_error + string"

subsection \<open>Built-in operations\<close>

text \<open>\<^verbatim>\<open>v[key]\<close> with a string key.\<close>

fun subscript :: "yaml \<Rightarrow> string \<Rightarrow> py_error + yaml" where
  "subscript (YMap kvs) key = (case map_of kvs key of None \<Rightarrow> Inl KeyError | Some v \<Rightarrow> Inr v)"
| "subscript _ key = Inl TypeError"

text \<open>\<^verbatim>\<open>v.get(key, default)\<close>.\<close>

fun py_get :: "yaml \<Rightarrow> string \<Rightarrow> yaml \<Rightarrow> py_error + yaml" where
  "py_get (YMap kvs) key d = (case map_of kvs key of None \<Rightarrow> Inr d | Some v \<Rightarrow> Inr v)"
| "py_get _ key d = Inl AttributeError"

text \<open>The items a \<^verbatim>\<open>for\<close> loop visits: the elements of a sequence, the keys of a mapping, the
  characters of a string. Python counts the characters of a string where this model counts
  bytes; the scripts subscript every item they visit with a string key, which raises
  TypeError on the first item of a string, so that only the empty string gets through a loop
  and has its length taken.\<close>

fun py_iter :: "yaml \<Rightarrow> py_error + yaml list" where
  "py_iter (YSeq xs) = Inr xs"
| "py_iter (YMap kvs) = Inr (map (\<lambda>kv. YStr (fst kv)) kvs)"
| "py_iter (YStr s) = Inr (map (\<lambda>c. YStr [c]) s)"
| "py_iter _ = Inl TypeError"

fun py_len :: "yaml \<Rightarrow> py_error + nat" where
  "py_len (YSeq xs) = Inr (length xs)"
| "py_len (YMap kvs) = Inr (length kvs)"
| "py_len (YStr s) = Inr (length s)"
| "py_len _ = Inl TypeError"

fun dec_nat :: "nat \<Rightarrow> string" where
  "dec_nat n = (if n < 10 then [''0123456789'' ! n] else dec_nat (n div 10) @ [''0123456789'' ! (n mod 10)])"

definition dec_int :: "int \<Rightarrow> string" where
  "dec_int i = (if i < 0 then ''-'' @ dec_nat (nat (- i)) else dec_nat (nat i))"

text \<open>\<^verbatim>\<open>str(v)\<close>, as an f-string applies it to a field.\<close>

definition py_str :: "env \<Rightarrow> yaml \<Rightarrow> string" where
  "py_str E v =
     (case v of
        YStr s \<Rightarrow> s
      | YNull \<Rightarrow> ''None''
      | YBool b \<Rightarrow> (if b then ''True'' else ''False'')
      | YInt i \<Rightarrow> dec_int i
      | _ \<Rightarrow> render E v)"

fun strs_of :: "yaml list \<Rightarrow> string list option" where
  "strs_of [] = Some []"
| "strs_of (YStr s # vs) = (case strs_of vs of None \<Rightarrow> None | Some ss \<Rightarrow> Some (s # ss))"
| "strs_of (_ # vs) = None"

fun join :: "string \<Rightarrow> string list \<Rightarrow> string" where
  "join sep [] = []"
| "join sep [s] = s"
| "join sep (s # t # r) = s @ sep @ join sep (t # r)"

text \<open>\<^verbatim>\<open>sep.join(vs)\<close> raises TypeError unless every item is a string.\<close>

definition py_join :: "string \<Rightarrow> yaml list \<Rightarrow> py_error + string" where
  "py_join sep vs = (case strs_of vs of None \<Rightarrow> Inl TypeError | Some ss \<Rightarrow> Inr (join sep ss))"

text \<open>\<^verbatim>\<open>subprocess.run(cmd, ...)\<close>: the outcome is the environment's, and the call is recorded
  with it.\<close>

definition run :: "env \<Rightarrow> event list \<Rightarrow> string list \<Rightarrow> (string + completed) \<times> event list" where
  "run E tr cmd = (let r = subprocess_run E tr cmd in (r, tr @ [Run cmd r]))"

subsection \<open>Floating-point numbers\<close>

text \<open>
  A Python float is an IEEE binary64 number. The model keeps its value, a rational, and gives
  an operation the exact result rounded to the nearest number with a significand of 53 bits,
  a tie going to the even significand. The range of the exponent is not modelled: the
  quotient of two list lengths and its hundredfold lie far inside it.

  \<open>bit_length\<close> is the number of binary digits of a natural number and \<open>exponent_of\<close> the
  exponent of a positive rational \<open>x\<close>, the integer \<open>e\<close> with \<open>2 powi e \<le> x < 2 powi (e + 1)\<close>.
\<close>

fun bit_length :: "nat \<Rightarrow> nat" where
  "bit_length n = (if n = 0 then 0 else Suc (bit_length (n div 2)))"

definition exponent_of :: "rat \<Rightarrow> int" where
  "exponent_of x =
     (if 1 \<le> x then int (bit_length (nat \<lfloor>x\<rfloor>)) - 1
      else - int (bit_length (nat (\<lceil>1 / x\<rceil> - 1))))"

definition round_half_even :: "rat \<Rightarrow> int" where
  "round_half_even q =
     (let r = \<lfloor>q\<rfloor>; f = q - of_int r
      in if f < 1 / 2 then r else if 1 / 2 < f then r + 1 else if even r then r else r + 1)"

definition round_double :: "rat \<Rightarrow> rat" where
  "round_double x =
     (if x = 0 then 0
      else let u = 2 powi (exponent_of \<bar>x\<bar> - 52)
           in of_int ((if x < 0 then - 1 else 1) * round_half_even (\<bar>x\<bar> / u)) * u)"

text \<open>\<^verbatim>\<open>a / b * 100\<close> on two integers, \<open>b\<close> not 0: the true division gives the float nearest to
  the quotient, and the product with 100 is rounded again.\<close>

definition percent :: "nat \<Rightarrow> nat \<Rightarrow> rat" where
  "percent a b = round_double (round_double (of_nat a / of_nat b) * 100)"

section \<open>check\_progress.py\<close>

definition view_path :: "env \<Rightarrow> yaml \<Rightarrow> string" where
  "view_path E i = ''ios/VoiceKoereq/Views/'' @ py_str E i @ ''View.swift''"

text \<open>The loop of lines 19 to 26, with the two lists it appends to.\<close>

fun scan_features :: "env \<Rightarrow> yaml list \<Rightarrow> yaml list \<Rightarrow> yaml list \<Rightarrow> py_error + yaml list \<times> yaml list" where
  "scan_features E [] implemented not_implemented = Inr (implemented, not_implemented)"
| "scan_features E (feature # rest) implemented not_implemented =
     (case subscript feature ''id'' of
        Inl e \<Rightarrow> Inl e
      | Inr i \<Rightarrow>
          if path_exists E (view_path E i)
          then scan_features E rest (implemented @ [i]) not_implemented
          else scan_features E rest implemented (not_implemented @ [i]))"

text \<open>Line 31.\<close>

definition progress_of :: "nat \<Rightarrow> nat \<Rightarrow> pynum" where
  "progress_of done_n total_n =
     (if total_n > 0 then PFloat (percent done_n total_n) else PInt 0)"

text \<open>The number a format specification of type \<^verbatim>\<open>f\<close> is given: an integer is converted to a float.\<close>

definition num_value :: "pynum \<Rightarrow> rat" where
  "num_value v = (case v of PInt i \<Rightarrow> of_int i | PFloat q \<Rightarrow> q)"

definition progress_label :: string where
  "progress_label =
     [CHR 0xF0, CHR 0x9F, CHR 0x93, CHR 0x8A] @ '' '' @
     [CHR 0xE5, CHR 0xAE, CHR 0x9F, CHR 0xE8, CHR 0xA3, CHR 0x85,
      CHR 0xE9, CHR 0x80, CHR 0xB2, CHR 0xE6, CHR 0x8D, CHR 0x97] @ '': ''"

definition progress_line :: "env \<Rightarrow> nat \<Rightarrow> nat \<Rightarrow> pynum \<Rightarrow> string" where
  "progress_line E done_n total_n progress =
     progress_label @ dec_nat done_n @ ''/'' @ dec_nat total_n @ '' ('' @
     format_1f E (num_value progress) @ ''%)''"

definition implemented_label :: string where
  "implemented_label =
     [CHR 0xE2, CHR 0x9C, CHR 0x85] @ '' '' @
     [CHR 0xE5, CHR 0xAE, CHR 0x9F, CHR 0xE8, CHR 0xA3, CHR 0x85,
      CHR 0xE6, CHR 0xB8, CHR 0x88, CHR 0xE3, CHR 0x81, CHR 0xBF] @ '': ''"

definition pending_label :: string where
  "pending_label =
     [CHR 0xE2, CHR 0x8F, CHR 0xB3] @ '' '' @
     [CHR 0xE6, CHR 0x9C, CHR 0xAA, CHR 0xE5, CHR 0xAE, CHR 0x9F, CHR 0xE8, CHR 0xA3, CHR 0x85] @ '': ''"

text \<open>Lines 38 to 41: the line for GitHub Actions.\<close>

definition next_feature_line :: "env \<Rightarrow> yaml list \<Rightarrow> string" where
  "next_feature_line E not_implemented =
     (case not_implemented of
        [] \<Rightarrow> ''::set-output name=next_feature::''
      | i # _ \<Rightarrow> ''::set-output name=next_feature::'' @ py_str E i)"

text \<open>Lines 44 to 50.\<close>

definition progress_data :: "nat \<Rightarrow> nat \<Rightarrow> pynum \<Rightarrow> yaml list \<Rightarrow> yaml list \<Rightarrow> (string \<times> pyval) list" where
  "progress_data total_n done_n progress implemented not_implemented =
     [(''total_features'', PNum (PInt (int total_n))),
      (''implemented'', PNum (PInt (int done_n))),
      (''progress_percentage'', PNum progress),
      (''implemented_features'', PList implemented),
      (''pending_features'', PList not_implemented)]"

text \<open>
  The whole procedure, from the loaded specification on. The result is the trace of the run
  and the exception that ended it, if one did.
\<close>

definition check_progress :: "env \<Rightarrow> yaml \<Rightarrow> event list \<times> py_error option" where
  "check_progress E spec =
     (case subscript spec ''features'' of
        Inl e \<Rightarrow> ([], Some e)
      | Inr features \<Rightarrow>
     (case py_iter features of
        Inl e \<Rightarrow> ([], Some e)
      | Inr items \<Rightarrow>
     (case scan_features E items [] [] of
        Inl e \<Rightarrow> ([], Some e)
      | Inr (implemented, not_implemented) \<Rightarrow>
     (case py_len features of
        Inl e \<Rightarrow> ([], Some e)
      | Inr total_n \<Rightarrow>
          let done_n = length implemented;
              progress = progress_of done_n total_n;
              tr1 = [Print (progress_line E done_n total_n progress)]
          in
     (case py_join '', '' implemented of
        Inl e \<Rightarrow> (tr1, Some e)
      | Inr s1 \<Rightarrow>
          let tr2 = tr1 @ [Print (implemented_label @ s1)] in
     (case py_join '', '' not_implemented of
        Inl e \<Rightarrow> (tr2, Some e)
      | Inr s2 \<Rightarrow>
          let tr3 = tr2 @ [Print (pending_label @ s2)];
              tr4 = tr3 @ [Print (next_feature_line E not_implemented)]
          in (tr4 @ [Dump ''progress.json''
                       (progress_data total_n done_n progress implemented not_implemented)],
              None)))))))"

subsection \<open>Reading a trace\<close>

text \<open>The files a run wrote, the lines it printed, and what a printed line carries after a
  given prefix.\<close>

fun dumps :: "event list \<Rightarrow> (string \<times> (string \<times> pyval) list) list" where
  "dumps [] = []"
| "dumps (Dump p d # tr) = (p, d) # dumps tr"
| "dumps (_ # tr) = dumps tr"

fun prints :: "event list \<Rightarrow> string list" where
  "prints [] = []"
| "prints (Print l # tr) = l # prints tr"
| "prints (_ # tr) = prints tr"

fun strip_prefix :: "string \<Rightarrow> string \<Rightarrow> string option" where
  "strip_prefix [] s = Some s"
| "strip_prefix (p # ps) [] = None"
| "strip_prefix (p # ps) (c # cs) = (if p = c then strip_prefix ps cs else None)"

definition next_feature_outputs :: "event list \<Rightarrow> string list" where
  "next_feature_outputs tr =
     List.map_filter (strip_prefix ''::set-output name=next_feature::'') (prints tr)"

text \<open>The commands a run started, in order.\<close>

fun commands :: "event list \<Rightarrow> string list list" where
  "commands [] = []"
| "commands (Run cmd outcome # tr) = cmd # commands tr"
| "commands (_ # tr) = commands tr"

text \<open>The calls and sleeps of a run, without what it printed.\<close>

datatype effect = Call "string list" "string + completed" | Pause nat

fun effects :: "event list \<Rightarrow> effect list" where
  "effects [] = []"
| "effects (Run cmd outcome # tr) = Call cmd outcome # effects tr"
| "effects (Sleep n # tr) = Pause n # effects tr"
| "effects (_ # tr) = effects tr"

text \<open>A call succeeded when the program started and returned 0.\<close>

definition succeeded :: "string + completed \<Rightarrow> bool" where
  "succeeded outcome = (case outcome of Inl msg \<Rightarrow> False | Inr result \<Rightarrow> returncode result = 0)"

text \<open>
  The local files a run created or modified, in order: the files the script wrote itself
  and the files the commands it started wrote, each command seen with the trace up to its
  start. A program that could not be started wrote nothing.
\<close>

fun changed_after :: "env \<Rightarrow> event list \<Rightarrow> event list \<Rightarrow> string list" where
  "changed_after E before [] = []"
| "changed_after E before (Run cmd outcome # rest) =
     (case outcome of Inl msg \<Rightarrow> [] | Inr result \<Rightarrow> command_writes E before cmd) @
     changed_after E (before @ [Run cmd outcome]) rest"
| "changed_after E before (Dump path d # rest) =
     path # changed_after E (before @ [Dump path d]) rest"
| "changed_after E before (e # rest) = changed_after E (before @ [e]) rest"

definition files_changed :: "env \<Rightarrow> event list \<Rightarrow> string list" where
  "files_changed E tr = changed_after E [] tr"

text \<open>A run that writes no file itself and starts no program but the given one.\<close>

definition only_program :: "string \<Rightarrow> event list \<Rightarrow> bool" where
  "only_program prog tr = (dumps tr = [] \<and> list_all (\<lambda>cmd. take 1 cmd = [prog]) (commands tr))"

text \<open>The events of a trace by which the run writes a file itself or starts a program other
  than the given one.\<close>

fun outside :: "string \<Rightarrow> event list \<Rightarrow> event list" where
  "outside prog [] = []"
| "outside prog (Dump path d # rest) = Dump path d # outside prog rest"
| "outside prog (Run cmd outcome # rest) =
     (if take 1 cmd = [prog] then [] else [Run cmd outcome]) @ outside prog rest"
| "outside prog (e # rest) = outside prog rest"

section \<open>create\_feature\_issues.py and create\_issues\_simple.py\<close>

definition check_mark :: string where
  "check_mark = [CHR 0xE2, CHR 0x9C, CHR 0x85]"

definition cross_mark :: string where
  "cross_mark = [CHR 0xE2, CHR 0x9D, CHR 0x8C]"

text \<open>The text of the issue body between its five fields (lines 26 to 64).\<close>

definition body_1 :: string where
  "body_1 =
     ''## '' @ [CHR 0xE6, CHR 0xA6, CHR 0x82, CHR 0xE8, CHR 0xA6, CHR 0x81, CHR 0x0A]"

definition body_2 :: string where
  "body_2 =
     [CHR 0x0A, CHR 0x0A] @ ''## '' @
     [CHR 0xE6, CHR 0xA9, CHR 0x9F, CHR 0xE8, CHR 0x83, CHR 0xBD, CHR 0xE8, CHR 0xA9, CHR 0xB3] @
     [CHR 0xE7, CHR 0xB4, CHR 0xB0, CHR 0x0A] @ ''- **'' @
     [CHR 0xE6, CHR 0xA9, CHR 0x9F, CHR 0xE8, CHR 0x83, CHR 0xBD] @ ''ID**: ''"

definition body_3 :: string where
  "body_3 =
     [CHR 0x0A] @ ''- **'' @
     [CHR 0xE6, CHR 0xA9, CHR 0x9F, CHR 0xE8, CHR 0x83, CHR 0xBD, CHR 0xE5, CHR 0x90, CHR 0x8D] @
     ''**: ''"

definition body_4 :: string where
  "body_4 =
     [CHR 0x0A] @ ''- **'' @
     [CHR 0xE3, CHR 0x82, CHR 0xBF, CHR 0xE3, CHR 0x82, CHR 0xA4, CHR 0xE3, CHR 0x83, CHR 0x97] @
     ''**: ''"

definition body_5 :: string where
  "body_5 =
     [CHR 0x0A] @ ''- **'' @
     [CHR 0xE5, CHR 0x84, CHR 0xAA, CHR 0xE5, CHR 0x85, CHR 0x88, CHR 0xE5, CHR 0xBA, CHR 0xA6] @
     ''**: ''"

definition body_6 :: string where
  "body_6 =
     [CHR 0x0A, CHR 0x0A] @ ''## '' @
     [CHR 0xE5, CHR 0xAE, CHR 0x9F, CHR 0xE8, CHR 0xA3, CHR 0x85, CHR 0xE8, CHR 0xA6, CHR 0x81] @
     [CHR 0xE4, CHR 0xBB, CHR 0xB6, CHR 0x0A, CHR 0x0A] @ ''### iOS'' @ [CHR 0x0A] @
     ''- SwiftUI + Combine'' @ [CHR 0x0A] @ ''- iOS 16+ '' @
     [CHR 0xE5, CHR 0xAF, CHR 0xBE, CHR 0xE5, CHR 0xBF, CHR 0x9C, CHR 0x0A] @ ''- MVVM '' @
     [CHR 0xE3, CHR 0x82, CHR 0xA2, CHR 0xE3, CHR 0x83, CHR 0xBC, CHR 0xE3, CHR 0x82, CHR 0xAD] @
     [CHR 0xE3, CHR 0x83, CHR 0x86, CHR 0xE3, CHR 0x82, CHR 0xAF, CHR 0xE3, CHR 0x83, CHR 0x81] @
     [CHR 0xE3, CHR 0x83, CHR 0xA3, CHR 0x0A] @ ''- '' @
     [CHR 0xE3, CHR 0x82, CHR 0xA8, CHR 0xE3, CHR 0x83, CHR 0xA9, CHR 0xE3, CHR 0x83, CHR 0xBC] @
     [CHR 0xE3, CHR 0x83, CHR 0x8F, CHR 0xE3, CHR 0x83, CHR 0xB3, CHR 0xE3, CHR 0x83, CHR 0x89] @
     [CHR 0xE3, CHR 0x83, CHR 0xAA, CHR 0xE3, CHR 0x83, CHR 0xB3, CHR 0xE3, CHR 0x82, CHR 0xB0] @
     [CHR 0x0A] @ ''- '' @
     [CHR 0xE6, CHR 0x97, CHR 0xA5, CHR 0xE6, CHR 0x9C, CHR 0xAC, CHR 0xE8, CHR 0xAA, CHR 0x9E] @
     ''UI'' @ [CHR 0x0A, CHR 0x0A] @ ''### Android'' @ [CHR 0x0A] @
     ''- Jetpack Compose + Kotlin'' @ [CHR 0x0A] @ ''- Material Design 3'' @ [CHR 0x0A] @
     ''- Hilt DI'' @ [CHR 0x0A] @ ''- Coroutines + Flow'' @ [CHR 0x0A] @ ''- '' @
     [CHR 0xE6, CHR 0x97, CHR 0xA5, CHR 0xE6, CHR 0x9C, CHR 0xAC, CHR 0xE8, CHR 0xAA, CHR 0x9E] @
     ''UI'' @ [CHR 0x0A, CHR 0x0A] @ ''### '' @
     [CHR 0xE5, CHR 0x85, CHR 0xB1, CHR 0xE6, CHR 0x9C, CHR 0x89, CHR 0xE3, CHR 0x83, CHR 0xAD] @
     [CHR 0xE3, CHR 0x82, CHR 0xB8, CHR 0xE3, CHR 0x83, CHR 0x83, CHR 0xE3, CHR 0x82, CHR 0xAF] @
     [CHR 0x0A] @ ''- Kotlin Multiplatform'' @ [CHR 0x0A] @ ''- expect/actual '' @
     [CHR 0xE3, CHR 0x83, CHR 0x91, CHR 0xE3, CHR 0x82, CHR 0xBF, CHR 0xE3, CHR 0x83, CHR 0xBC] @
     [CHR 0xE3, CHR 0x83, CHR 0xB3, CHR 0x0A] @ ''- '' @
     [CHR 0xE5, CHR 0x85, CHR 0xB1, CHR 0xE9, CHR 0x80, CHR 0x9A] @ ''API'' @
     [CHR 0xE8, CHR 0xA8, CHR 0xAD, CHR 0xE8, CHR 0xA8, CHR 0x88, CHR 0x0A, CHR 0x0A] @
     ''## '' @
     [CHR 0xE5, CHR 0x8F, CHR 0x97, CHR 0xE3, CHR 0x81, CHR 0x91, CHR 0xE5, CHR 0x85, CHR 0xA5] @
     [CHR 0xE3, CHR 0x82, CHR 0x8C, CHR 0xE6, CHR 0x9D, CHR 0xA1, CHR 0xE4, CHR 0xBB, CHR 0xB6] @
     [CHR 0x0A] @ ''- [ ] iOS'' @
     [CHR 0xE5, CHR 0xAE, CHR 0x9F, CHR 0xE8, CHR 0xA3, CHR 0x85, CHR 0xE5, CHR 0xAE, CHR 0x8C] @
     [CHR 0xE4, CHR 0xBA, CHR 0x86, CHR 0x0A] @ ''- [ ] Android'' @
     [CHR 0xE5, CHR 0xAE, CHR 0x9F, CHR 0xE8, CHR 0xA3, CHR 0x85, CHR 0xE5, CHR 0xAE, CHR 0x8C] @
     [CHR 0xE4, CHR 0xBA, CHR 0x86, CHR 0x0A] @ ''- [ ] '' @
     [CHR 0xE3, CHR 0x83, CHR 0x86, CHR 0xE3, CHR 0x82, CHR 0xB9, CHR 0xE3, CHR 0x83, CHR 0x88] @
     [CHR 0xE3, CHR 0x82, CHR 0xB3, CHR 0xE3, CHR 0x83, CHR 0xBC, CHR 0xE3, CHR 0x83, CHR 0x89] @
     [CHR 0xE4, CHR 0xBD, CHR 0x9C, CHR 0xE6, CHR 0x88, CHR 0x90, CHR 0x0A] @ ''- [ ] '' @
     [CHR 0xE3, CHR 0x82, CHR 0xB3, CHR 0xE3, CHR 0x83, CHR 0xBC, CHR 0xE3, CHR 0x83, CHR 0x89] @
     [CHR 0xE3, CHR 0x83, CHR 0xAC, CHR 0xE3, CHR 0x83, CHR 0x93, CHR 0xE3, CHR 0x83, CHR 0xA5] @
     [CHR 0xE3, CHR 0x83, CHR 0xBC, CHR 0xE5, CHR 0xAE, CHR 0x8C, CHR 0xE4, CHR 0xBA, CHR 0x86] @
     [CHR 0x0A] @ ''- [ ] '' @
     [CHR 0xE6, CHR 0x97, CHR 0xA5, CHR 0xE6, CHR 0x9C, CHR 0xAC, CHR 0xE8, CHR 0xAA, CHR 0x9E] @
     ''UI'' @ [CHR 0xE7, CHR 0xA2, CHR 0xBA, CHR 0xE8, CHR 0xAA, CHR 0x8D, CHR 0x0A, CHR 0x0A] @
     ''---'' @ [CHR 0x0A] @ ''*'' @
     [CHR 0xE3, CHR 0x81, CHR 0x93, CHR 0xE3, CHR 0x81, CHR 0xAE] @ ''Issue'' @
     [CHR 0xE3, CHR 0x81, CHR 0xAF, CHR 0xE8, CHR 0x87, CHR 0xAA, CHR 0xE5, CHR 0x8B, CHR 0x95] @
     [CHR 0xE7, CHR 0x94, CHR 0x9F, CHR 0xE6, CHR 0x88, CHR 0x90, CHR 0xE3, CHR 0x81, CHR 0x95] @
     [CHR 0xE3, CHR 0x82, CHR 0x8C, CHR 0xE3, CHR 0x81, CHR 0xBE, CHR 0xE3, CHR 0x81, CHR 0x97] @
     [CHR 0xE3, CHR 0x81, CHR 0x9F] @ ''*''"

definition issue_body :: "string \<Rightarrow> string \<Rightarrow> string \<Rightarrow> string \<Rightarrow> string \<Rightarrow> string" where
  "issue_body description feature_id name feature_type priority =
     body_1 @ description @ body_2 @ feature_id @ body_3 @ name @ body_4 @ feature_type @
     body_5 @ priority @ body_6"

definition issue_title :: "string \<Rightarrow> string \<Rightarrow> string" where
  "issue_title feature_id name = ''['' @ feature_id @ ''] '' @ name"

text \<open>Lines 19 to 23: the five fields, read in this order; the first that is missing ends
  the script with its exception.\<close>

definition feature_fields :: "yaml \<Rightarrow> py_error + yaml \<times> yaml \<times> yaml \<times> yaml \<times> yaml" where
  "feature_fields feature =
     (case subscript feature ''id'' of Inl e \<Rightarrow> Inl e | Inr feature_id \<Rightarrow>
     (case subscript feature ''name'' of Inl e \<Rightarrow> Inl e | Inr name \<Rightarrow>
     (case subscript feature ''description'' of Inl e \<Rightarrow> Inl e | Inr description \<Rightarrow>
     (case subscript feature ''type'' of Inl e \<Rightarrow> Inl e | Inr feature_type \<Rightarrow>
     (case subscript feature ''priority'' of Inl e \<Rightarrow> Inl e | Inr priority \<Rightarrow>
        Inr (feature_id, name, description, feature_type, priority))))))"

text \<open>
  The loop over the features, which the two scripts share word for word but for the label:
  \<open>label_of\<close> is \<^verbatim>\<open>f'feature,{feature_type},{priority}'\<close> in create\_feature\_issues.py and
  \<^verbatim>\<open>'feature'\<close> in create\_issues\_simple.py. With \<^verbatim>\<open>check=True\<close> a return code other than 0 raises
  CalledProcessError, which the \<^verbatim>\<open>except\<close> clause of the same iteration catches; the OSError
  of a program that could not be started is not caught.
\<close>

fun create_issues_loop ::
  "(string \<Rightarrow> string \<Rightarrow> string) \<Rightarrow> env \<Rightarrow> yaml list \<Rightarrow> event list \<Rightarrow> event list \<times> py_error option" where
  "create_issues_loop label_of E [] tr = (tr, None)"
| "create_issues_loop label_of E (feature # rest) tr =
     (case feature_fields feature of
        Inl e \<Rightarrow> (tr, Some e)
      | Inr (feature_id, name, description, feature_type, priority) \<Rightarrow>
          let body = issue_body (py_str E description) (py_str E feature_id) (py_str E name)
                       (py_str E feature_type) (py_str E priority);
              title = issue_title (py_str E feature_id) (py_str E name);
              cmd = [''gh'', ''issue'', ''create'',
                     ''--title'', title,
                     ''--body'', body,
                     ''--label'', label_of (py_str E feature_type) (py_str E priority)];
              (outcome, tr1) = run E tr cmd
          in case outcome of
               Inl msg \<Rightarrow> (tr1, Some (OSError msg))
             | Inr result \<Rightarrow>
                 if returncode result = 0
                 then create_issues_loop label_of E rest
                        (tr1 @ [Print (check_mark @ '' Created: '' @ title),
                                Print (''   URL: '' @ strip E (stdout result))])
                 else create_issues_loop label_of E rest
                        (tr1 @ [Print (cross_mark @ '' Failed to create: '' @ title),
                                Print (''   Error: '' @ stderr result)]))"

definition feature_label :: "string \<Rightarrow> string \<Rightarrow> string" where
  "feature_label feature_type priority = ''feature,'' @ feature_type @ '','' @ priority"

definition create_feature_issues :: "env \<Rightarrow> yaml \<Rightarrow> event list \<times> py_error option" where
  "create_feature_issues E spec =
     (case py_get spec ''features'' (YSeq []) of
        Inl e \<Rightarrow> ([], Some e)
      | Inr features \<Rightarrow>
     (case py_iter features of
        Inl e \<Rightarrow> ([], Some e)
      | Inr items \<Rightarrow> create_issues_loop feature_label E items []))"

text \<open>create\_issues\_simple.py carries its two features in the script (lines 9 to 24).\<close>

definition simple_features :: "yaml list" where
  "simple_features =
     [YMap [(''id'', YStr ''F7''),
            (''name'', YStr ([CHR 0xE3, CHR 0x82, CHR 0xB5, CHR 0xE3, CHR 0x83, CHR 0x9E, CHR 0xE3, CHR 0x83, CHR 0xAA] @
                       [CHR 0xE3, CHR 0x83, CHR 0xBC, CHR 0xE7, CHR 0x94, CHR 0x9F, CHR 0xE6, CHR 0x88, CHR 0x90])),
            (''description'', YStr ([CHR 0xE4, CHR 0xBC, CHR 0x9A, CHR 0xE8, CHR 0xA9, CHR 0xB1, CHR 0xE5, CHR 0x86, CHR 0x85] @
                       [CHR 0xE5, CHR 0xAE, CHR 0xB9, CHR 0xE3, CHR 0x81, CHR 0xAE, CHR 0xE8, CHR 0xA6, CHR 0x81] @
                       [CHR 0xE7, CHR 0xB4, CHR 0x84, CHR 0xE3, CHR 0x81, CHR 0xA8, CHR 0xE3, CHR 0x83, CHR 0xAC] @
                       [CHR 0xE3, CHR 0x83, CHR 0x9D, CHR 0xE3, CHR 0x83, CHR 0xBC, CHR 0xE3, CHR 0x83, CHR 0x88] @
                       [CHR 0xE7, CHR 0x94, CHR 0x9F, CHR 0xE6, CHR 0x88, CHR 0x90])),
            (''type'', YStr ''ai_service''),
            (''priority'', YStr ''medium'')],
      YMap [(''id'', YStr ''F8''),
            (''name'', YStr ([CHR 0xE3, CHR 0x82, CHR 0xAA, CHR 0xE3, CHR 0x83, CHR 0x95, CHR 0xE3, CHR 0x83, CHR 0xA9] @
                       [CHR 0xE3, CHR 0x82, CHR 0xA4, CHR 0xE3, CHR 0x83, CHR 0xB3])),
            (''description'', YStr ([CHR 0xE3, CHR 0x82, CHR 0xAA, CHR 0xE3, CHR 0x83, CHR 0x95, CHR 0xE3, CHR 0x83, CHR 0xA9] @
                       [CHR 0xE3, CHR 0x82, CHR 0xA4, CHR 0xE3, CHR 0x83, CHR 0xB3, CHR 0xE6, CHR 0x99, CHR 0x82] @
                       [CHR 0xE3, CHR 0x81, CHR 0xAE, CHR 0xE3, CHR 0x83, CHR 0x87, CHR 0xE3, CHR 0x83, CHR 0xBC] @
                       [CHR 0xE3, CHR 0x82, CHR 0xBF, CHR 0xE4, CHR 0xBF, CHR 0x9D, CHR 0xE5, CHR 0xAD, CHR 0x98] @
                       [CHR 0xE3, CHR 0x81, CHR 0xA8, CHR 0xE5, CHR 0x90, CHR 0x8C, CHR 0xE6, CHR 0x9C, CHR 0x9F] @
                       [CHR 0xE6, CHR 0xA9, CHR 0x9F, CHR 0xE8, CHR 0x83, CHR 0xBD])),
            (''type'', YStr ''infrastructure''),
            (''priority'', YStr ''low'')]]"

definition create_feature_issues_simple :: "env \<Rightarrow> event list \<times> py_error option" where
  "create_feature_issues_simple E =
     create_issues_loop (\<lambda>feature_type priority. ''feature'') E simple_features []"

text \<open>A feature descriptor as the specification file gives it: a mapping that holds the five
  fields as strings. And the command line the loop builds for it.\<close>

definition described :: "yaml \<Rightarrow> string \<times> string \<times> string \<times> string \<times> string \<Rightarrow> bool" where
  "described f d = (case d of (i, n, dsc, t, p) \<Rightarrow>
     subscript f ''id'' = Inr (YStr i) \<and> subscript f ''name'' = Inr (YStr n) \<and>
     subscript f ''description'' = Inr (YStr dsc) \<and> subscript f ''type'' = Inr (YStr t) \<and>
     subscript f ''priority'' = Inr (YStr p))"


section \<open>trigger\_claude\_batch.py\<close>

text \<open>The texts the script prints and posts.\<close>

definition text_triggering :: string where
  "text_triggering =
     [CHR 0xF0, CHR 0x9F, CHR 0xA4, CHR 0x96] @ '' Triggering Claude on Issue #''"

definition claude_comment :: string where
  "claude_comment =
     ''@claude Please implement this feature as described above. Focus on cre'' @
     ''ating production-ready code for both iOS and Android platforms.''"

definition text_waiting :: string where
  "text_waiting =
     ''   '' @ [CHR 0xE2, CHR 0x8F, CHR 0xB3] @ '' Waiting 30 seconds before next trigger...''"

definition text_none_found :: string where
  "text_none_found =
     [CHR 0xE2, CHR 0x9A, CHR 0xA0, CHR 0xEF, CHR 0xB8, CHR 0x8F] @
     ''  No unimplemented issues found''"

definition text_found :: string where
  "text_found =
     [CHR 0xF0, CHR 0x9F, CHR 0x93, CHR 0x8B] @ '' Found ''"

definition confirm_prompt :: string where
  "confirm_prompt =
     [CHR 0xF0, CHR 0x9F, CHR 0xA4, CHR 0x94] @ '' Trigger Claude on all these issues? (y/N): ''"

text \<open>
  Lines 13 to 31. \<open>issue_numbers\<close> is the whole list, whose length line 26 tests in every
  iteration; the third argument is what is left of it. The sleep stands in the \<^verbatim>\<open>try\<close> block
  after the call: it is reached when the call returned 0, and skipped when the call raised.
\<close>

fun trigger_loop :: "env \<Rightarrow> yaml list \<Rightarrow> yaml list \<Rightarrow> event list \<Rightarrow> event list \<times> py_error option" where
  "trigger_loop E issue_numbers [] tr = (tr, None)"
| "trigger_loop E issue_numbers (issue_num # rest) tr =
     (let tr0 = tr @ [Print (text_triggering @ py_str E issue_num)];
          cmd = [''gh'', ''issue'', ''comment'', py_str E issue_num, ''--body'', claude_comment];
          (outcome, tr1) = run E tr0 cmd
      in case outcome of
           Inl msg \<Rightarrow> (tr1, Some (OSError msg))
         | Inr result \<Rightarrow>
             if returncode result = 0
             then let tr2 = tr1 @ [Print (check_mark @ '' Comment added to Issue #'' @
                                          py_str E issue_num)]
                  in if length issue_numbers > 1
                     then trigger_loop E issue_numbers rest
                            (tr2 @ [Print text_waiting,
                                    Sleep 30])
                     else trigger_loop E issue_numbers rest tr2
             else trigger_loop E issue_numbers rest
                    (tr1 @ [Print (cross_mark @ '' Failed to comment on Issue #'' @
                                   py_str E issue_num @ '': '' @ stderr result)]))"

definition trigger_claude_on_issues :: "env \<Rightarrow> yaml list \<Rightarrow> event list \<Rightarrow> event list \<times> py_error option" where
  "trigger_claude_on_issues E issue_numbers tr = trigger_loop E issue_numbers issue_numbers tr"

text \<open>\<^verbatim>\<open>[l['name'] for l in issue['labels']]\<close>.\<close>

fun names_of :: "yaml list \<Rightarrow> py_error + yaml list" where
  "names_of [] = Inr []"
| "names_of (l # ls) =
     (case subscript l ''name'' of
        Inl e \<Rightarrow> Inl e
      | Inr n \<Rightarrow> (case names_of ls of Inl e \<Rightarrow> Inl e | Inr ns \<Rightarrow> Inr (n # ns)))"

definition label_names :: "yaml \<Rightarrow> py_error + yaml list" where
  "label_names issue =
     (case subscript issue ''labels'' of
        Inl e \<Rightarrow> Inl e
      | Inr ls \<Rightarrow> (case py_iter ls of Inl e \<Rightarrow> Inl e | Inr items \<Rightarrow> names_of items))"

definition feature_label_names :: "yaml list" where
  "feature_label_names =
     [YStr ''feature'', YStr ''ai_service'', YStr ''ui'', YStr ''audio_capture'', YStr ''backend'']"

text \<open>Lines 41 to 47.\<close>

fun unimplemented_loop :: "yaml list \<Rightarrow> yaml list \<Rightarrow> py_error + yaml list" where
  "unimplemented_loop [] unimplemented = Inr unimplemented"
| "unimplemented_loop (issue # rest) unimplemented =
     (case label_names issue of
        Inl e \<Rightarrow> Inl e
      | Inr labels \<Rightarrow>
          if YStr ''implemented'' \<notin> set labels \<and> list_ex (\<lambda>l. l \<in> set feature_label_names) labels
          then (case subscript issue ''number'' of
                  Inl e \<Rightarrow> Inl e
                | Inr n \<Rightarrow> unimplemented_loop rest (unimplemented @ [n]))
          else unimplemented_loop rest unimplemented)"

definition get_unimplemented_issues :: "env \<Rightarrow> event list \<Rightarrow> event list \<times> (py_error + yaml list)" where
  "get_unimplemented_issues E tr =
     (let cmd = [''gh'', ''issue'', ''list'', ''--json'', ''number,title,labels'', ''--limit'', ''50''];
          (outcome, tr1) = run E tr cmd
      in case outcome of
           Inl msg \<Rightarrow> (tr1, Inl (OSError msg))
         | Inr result \<Rightarrow>
             if returncode result \<noteq> 0
             then (tr1 @ [Print (cross_mark @ '' Failed to fetch issues: '' @ stderr result)], Inr [])
             else (case json_loads E (stdout result) of
                     Inl e \<Rightarrow> (tr1, Inl e)
                   | Inr issues \<Rightarrow>
                       (case py_iter issues of
                          Inl e \<Rightarrow> (tr1, Inl e)
                        | Inr items \<Rightarrow> (tr1, unimplemented_loop items []))))"

text \<open>\<^verbatim>\<open>s.split(',')\<close>, with the piece read so far.\<close>

fun split_from :: "string \<Rightarrow> string \<Rightarrow> string list" where
  "split_from piece [] = [piece]"
| "split_from piece (c # cs) =
     (if c = CHR '','' then piece # split_from [] cs else split_from (piece @ [c]) cs)"

text \<open>\<^verbatim>\<open>[int(x.strip()) for x in ...]\<close>.\<close>

fun parse_numbers :: "env \<Rightarrow> string list \<Rightarrow> py_error + int list" where
  "parse_numbers E [] = Inr []"
| "parse_numbers E (x # xs) =
     (case parse_int E (strip E x) of
        Inl e \<Rightarrow> Inl e
      | Inr n \<Rightarrow> (case parse_numbers E xs of Inl e \<Rightarrow> Inl e | Inr ns \<Rightarrow> Inr (n # ns)))"


text \<open>
  Lines 55 to 76, with \<^verbatim>\<open>sys.argv\<close> as argument. \<^verbatim>\<open>sys.exit(0)\<close> ends the run without an error.
  \<^verbatim>\<open>confirm.lower() != 'y'\<close> holds unless the answer is \<^verbatim>\<open>y\<close> or \<^verbatim>\<open>Y\<close>.
\<close>

definition trigger_main :: "env \<Rightarrow> string list \<Rightarrow> event list \<times> py_error option" where
  "trigger_main E argv =
     (if length argv > 1
      then (case parse_numbers E (split_from [] (argv ! 1)) of
              Inl e \<Rightarrow> ([], Some e)
            | Inr ns \<Rightarrow> trigger_claude_on_issues E (map YInt ns) [])
      else (case get_unimplemented_issues E [] of
              (tr, Inl e) \<Rightarrow> (tr, Some e)
            | (tr, Inr issue_numbers) \<Rightarrow>
                if issue_numbers = []
                then (tr @ [Print text_none_found], None)
                else
                  let tr1 = tr @ [Print (text_found @ dec_nat (length issue_numbers) @
                                         '' unimplemented issues: '' @ py_str E (YSeq issue_numbers))]
                  in (case answer E tr1 confirm_prompt of
                        Inl e \<Rightarrow> (tr1, Some e)
                      | Inr confirm \<Rightarrow>
                          let tr2 = tr1 @ [Ask confirm_prompt confirm]
                          in if confirm \<noteq> ''y'' \<and> confirm \<noteq> ''Y''
                             then (tr2 @ [Print (cross_mark @ '' Cancelled'')], None)
                             else trigger_claude_on_issues E issue_numbers tr2)))"

section \<open>create\_issues.py\<close>

text \<open>The texts the script prints.\<close>

definition text_statistics :: string where
  "text_statistics =
     [CHR 0xF0, CHR 0x9F, CHR 0x93, CHR 0x8A] @ '' '' @
     [CHR 0xE7, CHR 0xB5, CHR 0xB1, CHR 0xE8, CHR 0xA8, CHR 0x88]"

definition text_total_issues :: string where
  "text_total_issues =
     ''  '' @ [CHR 0xE7, CHR 0xB7, CHR 0x8F] @ ''Issue'' @ [CHR 0xE6, CHR 0x95, CHR 0xB0] @
     '': ''"

definition text_count_implemented :: string where
  "text_count_implemented =
     ''  '' @ [CHR 0xE2, CHR 0x9C, CHR 0x85] @ '' '' @
     [CHR 0xE5, CHR 0xAE, CHR 0x9F, CHR 0xE8, CHR 0xA3, CHR 0x85, CHR 0xE6, CHR 0xB8, CHR 0x88] @
     [CHR 0xE3, CHR 0x81, CHR 0xBF] @ '': ''"

definition text_count_ready :: string where
  "text_count_ready =
     ''  '' @ [CHR 0xF0, CHR 0x9F, CHR 0x94, CHR 0x84] @ '' '' @
     [CHR 0xE5, CHR 0xAE, CHR 0x9F, CHR 0xE8, CHR 0xA3, CHR 0x85, CHR 0xE4, CHR 0xB8, CHR 0xAD] @
     '': ''"

definition text_count_not_started :: string where
  "text_count_not_started =
     ''  '' @ [CHR 0xE2, CHR 0x8F, CHR 0xB3] @ '' '' @
     [CHR 0xE6, CHR 0x9C, CHR 0xAA, CHR 0xE7, CHR 0x9D, CHR 0x80, CHR 0xE6, CHR 0x89, CHR 0x8B] @
     '': ''"

definition text_list_not_started :: string where
  "text_list_not_started =
     [CHR 0xE2, CHR 0x8F, CHR 0xB3] @ '' '' @
     [CHR 0xE6, CHR 0x9C, CHR 0xAA, CHR 0xE7, CHR 0x9D, CHR 0x80, CHR 0xE6, CHR 0x89, CHR 0x8B] @
     [CHR 0xE3, CHR 0x81, CHR 0xAE] @ ''Issue:''"

definition text_list_ready :: string where
  "text_list_ready =
     [CHR 0xF0, CHR 0x9F, CHR 0x94, CHR 0x84] @ '' '' @
     [CHR 0xE5, CHR 0xAE, CHR 0x9F, CHR 0xE8, CHR 0xA3, CHR 0x85, CHR 0xE4, CHR 0xB8, CHR 0xAD] @
     [CHR 0xE3, CHR 0x81, CHR 0xAE] @ ''Issue:''"

definition text_list_implemented :: string where
  "text_list_implemented =
     [CHR 0xE2, CHR 0x9C, CHR 0x85] @ '' '' @
     [CHR 0xE5, CHR 0xAE, CHR 0x9F, CHR 0xE8, CHR 0xA3, CHR 0x85, CHR 0xE6, CHR 0xB8, CHR 0x88] @
     [CHR 0xE3, CHR 0x81, CHR 0xBF, CHR 0xE3, CHR 0x81, CHR 0xAE] @ ''Issue:''"

definition text_more :: string where
  "text_more =
     ''  ... '' @ [CHR 0xE4, CHR 0xBB, CHR 0x96] @ '' ''"

definition text_items :: string where
  "text_items =
     '' '' @ [CHR 0xE4, CHR 0xBB, CHR 0xB6]"

definition green_circle :: string where
  "green_circle =
     [CHR 0xF0, CHR 0x9F, CHR 0x9F, CHR 0xA2]"

definition purple_circle :: string where
  "purple_circle =
     [CHR 0xF0, CHR 0x9F, CHR 0x9F, CHR 0xA3]"

definition text_latest_prs :: string where
  "text_latest_prs =
     [CHR 0xF0, CHR 0x9F, CHR 0x93, CHR 0x9D] @ '' '' @
     [CHR 0xE6, CHR 0x9C, CHR 0x80, CHR 0xE6, CHR 0x96, CHR 0xB0, CHR 0xE3, CHR 0x81, CHR 0xAE] @
     ''PR:''"

definition text_next_actions :: string where
  "text_next_actions =
     [CHR 0xF0, CHR 0x9F, CHR 0x92, CHR 0xA1] @ '' '' @
     [CHR 0xE6, CHR 0xAC, CHR 0xA1, CHR 0xE3, CHR 0x81, CHR 0xAE, CHR 0xE3, CHR 0x82, CHR 0xA2] @
     [CHR 0xE3, CHR 0x82, CHR 0xAF, CHR 0xE3, CHR 0x82, CHR 0xB7, CHR 0xE3, CHR 0x83, CHR 0xA7] @
     [CHR 0xE3, CHR 0x83, CHR 0xB3] @ '':''"

definition text_action_1 :: string where
  "text_action_1 =
     ''  1. '' @
     [CHR 0xE6, CHR 0x9C, CHR 0xAA, CHR 0xE7, CHR 0x9D, CHR 0x80, CHR 0xE6, CHR 0x89, CHR 0x8B] @
     [CHR 0xE3, CHR 0x81, CHR 0xAE] @ ''Issue'' @ [CHR 0xE3, CHR 0x81, CHR 0xAB] @
     '' ready-to-implement '' @
     [CHR 0xE3, CHR 0x83, CHR 0xA9, CHR 0xE3, CHR 0x83, CHR 0x99, CHR 0xE3, CHR 0x83, CHR 0xAB] @
     [CHR 0xE3, CHR 0x82, CHR 0x92, CHR 0xE4, CHR 0xBB, CHR 0x98, CHR 0xE3, CHR 0x81, CHR 0x91] @
     [CHR 0xE3, CHR 0x81, CHR 0xA6, CHR 0xE5, CHR 0xAE, CHR 0x9F, CHR 0xE8, CHR 0xA3, CHR 0x85] @
     [CHR 0xE9, CHR 0x96, CHR 0x8B, CHR 0xE5, CHR 0xA7, CHR 0x8B]"

definition text_action_2 :: string where
  "text_action_2 =
     ''  2. '' @
     [CHR 0xE5, CHR 0xAE, CHR 0x9F, CHR 0xE8, CHR 0xA3, CHR 0x85, CHR 0xE4, CHR 0xB8, CHR 0xAD] @
     [CHR 0xE3, CHR 0x81, CHR 0xAE] @ ''Issue'' @
     [CHR 0xE3, CHR 0x81, CHR 0xAE, CHR 0xE9, CHR 0x80, CHR 0xB2, CHR 0xE6, CHR 0x8D, CHR 0x97] @
     [CHR 0xE7, CHR 0xA2, CHR 0xBA, CHR 0xE8, CHR 0xAA, CHR 0x8D]"

definition text_action_3 :: string where
  "text_action_3 =
     ''  3. '' @ [CHR 0xE5, CHR 0x85, CHR 0xA8] @ ''Issue'' @
     [CHR 0xE3, CHR 0x82, CHR 0x92, CHR 0xE4, CHR 0xB8, CHR 0x80, CHR 0xE6, CHR 0x8B, CHR 0xAC] @
     [CHR 0xE5, CHR 0xAE, CHR 0x9F, CHR 0xE8, CHR 0xA3, CHR 0x85]"

definition text_workflow_run :: string where
  "text_workflow_run =
     ''     gh workflow run '' @ [CHR 0x27, CHR 0xF0, CHR 0x9F, CHR 0x9A, CHR 0x80] @
     '' Batch Issue Implementation'' @ [CHR 0x27]"

definition text_dashboard_title :: string where
  "text_dashboard_title =
     [CHR 0xF0, CHR 0x9F, CHR 0x8E, CHR 0xA4] @ '' voice-koereq Issue Dashboard''"

definition text_calendar :: string where
  "text_calendar =
     [CHR 0xF0, CHR 0x9F, CHR 0x93, CHR 0x85] @ '' ''"

definition text_mvp :: string where
  "text_mvp =
     [CHR 0xE6, CHR 0x9C, CHR 0x80, CHR 0xE5, CHR 0xB0, CHR 0x8F, CHR 0xE9, CHR 0x99, CHR 0x90] @
     [CHR 0xE3, CHR 0x81, CHR 0xAE, CHR 0xE5, CHR 0x8B, CHR 0x95, CHR 0xE4, CHR 0xBD, CHR 0x9C] @
     [CHR 0xE5, CHR 0x8F, CHR 0xAF, CHR 0xE8, CHR 0x83, CHR 0xBD, CHR 0xE3, CHR 0x81, CHR 0xAA] @
     [CHR 0xE8, CHR 0xA3, CHR 0xBD, CHR 0xE5, CHR 0x93, CHR 0x81]"

definition text_beta :: string where
  "text_beta =
     [CHR 0xE3, CHR 0x83, CHR 0x99, CHR 0xE3, CHR 0x83, CHR 0xBC, CHR 0xE3, CHR 0x82, CHR 0xBF] @
     [CHR 0xE7, CHR 0x89, CHR 0x88, CHR 0xE3, CHR 0x83, CHR 0xAA, CHR 0xE3, CHR 0x83, CHR 0xAA] @
     [CHR 0xE3, CHR 0x83, CHR 0xBC, CHR 0xE3, CHR 0x82, CHR 0xB9]"

definition text_production :: string where
  "text_production =
     [CHR 0xE6, CHR 0x9C, CHR 0xAC, CHR 0xE7, CHR 0x95, CHR 0xAA, CHR 0xE3, CHR 0x83, CHR 0xAA] @
     [CHR 0xE3, CHR 0x83, CHR 0xAA, CHR 0xE3, CHR 0x83, CHR 0xBC, CHR 0xE3, CHR 0x82, CHR 0xB9]"

text \<open>Running one part of a procedure after another: an exception ends the run.\<close>

definition and_then ::
  "event list \<times> py_error option \<Rightarrow> (event list \<Rightarrow> event list \<times> py_error option) \<Rightarrow>
   event list \<times> py_error option" where
  "and_then r k = (case r of (tr, None) \<Rightarrow> k tr | (tr, Some e) \<Rightarrow> (tr, Some e))"

definition rule_line :: string where
  "rule_line = replicate 60 (CHR ''='')"

text \<open>Lines 32 to 40: the three lists, in the order the source declares them.\<close>

fun categorize ::
  "yaml list \<Rightarrow> yaml list \<Rightarrow> yaml list \<Rightarrow> yaml list \<Rightarrow> py_error + yaml list \<times> yaml list \<times> yaml list" where
  "categorize [] not_started ready_to_implement implemented =
     Inr (not_started, ready_to_implement, implemented)"
| "categorize (issue # rest) not_started ready_to_implement implemented =
     (case label_names issue of
        Inl e \<Rightarrow> Inl e
      | Inr labels \<Rightarrow>
          if YStr ''implemented'' \<in> set labels
          then categorize rest not_started ready_to_implement (implemented @ [issue])
          else if YStr ''ready-to-implement'' \<in> set labels
          then categorize rest not_started (ready_to_implement @ [issue]) implemented
          else categorize rest (not_started @ [issue]) ready_to_implement implemented)"

text \<open>The format \<^verbatim>\<open>{:3d}\<close>: an integer (or a boolean, which is one) right-aligned in three
  columns; a string raises ValueError, anything else TypeError.\<close>

definition pad3 :: "string \<Rightarrow> string" where
  "pad3 s = replicate (3 - length s) (CHR '' '') @ s"

fun format_3d :: "yaml \<Rightarrow> py_error + string" where
  "format_3d (YInt i) = Inr (pad3 (dec_int i))"
| "format_3d (YBool b) = Inr (pad3 (if b then ''1'' else ''0''))"
| "format_3d (YStr s) = Inl ValueError"
| "format_3d _ = Inl TypeError"

text \<open>\<^verbatim>\<open>f"{issue['number']:3d} {issue['title']}"\<close>, the fields evaluated from left to right.\<close>

definition number_and_title :: "env \<Rightarrow> yaml \<Rightarrow> py_error + string" where
  "number_and_title E issue =
     (case subscript issue ''number'' of Inl e \<Rightarrow> Inl e | Inr n \<Rightarrow>
     (case format_3d n of Inl e \<Rightarrow> Inl e | Inr digits \<Rightarrow>
     (case subscript issue ''title'' of Inl e \<Rightarrow> Inl e | Inr title \<Rightarrow>
        Inr (digits @ '' '' @ py_str E title))))"

fun print_issues :: "env \<Rightarrow> yaml list \<Rightarrow> event list \<Rightarrow> event list \<times> py_error option" where
  "print_issues E [] tr = (tr, None)"
| "print_issues E (issue # rest) tr =
     (case number_and_title E issue of
        Inl e \<Rightarrow> (tr, Some e)
      | Inr s \<Rightarrow> print_issues E rest (tr @ [Print (''  #'' @ s)]))"

text \<open>Lines 43 to 49. The division of line 46 is evaluated before anything of that line is
  printed.\<close>

definition print_statistics ::
  "env \<Rightarrow> nat \<Rightarrow> yaml list \<Rightarrow> yaml list \<Rightarrow> yaml list \<Rightarrow> event list \<Rightarrow> event list \<times> py_error option" where
  "print_statistics E total_n not_started ready_to_implement implemented tr =
     (let tr1 = tr @ [Print text_statistics,
                      Print (text_total_issues @ dec_nat total_n)]
      in if total_n = 0 then (tr1, Some ZeroDivisionError)
         else (tr1 @ [Print (text_count_implemented @ dec_nat (length implemented) @ '' ('' @
                             format_1f E (percent (length implemented) total_n) @ ''%)''),
                      Print (text_count_ready @ dec_nat (length ready_to_implement)),
                      Print (text_count_not_started @ dec_nat (length not_started)),
                      Print ''''],
               None))"

text \<open>Lines 52 to 70.\<close>

definition print_details ::
  "env \<Rightarrow> yaml list \<Rightarrow> yaml list \<Rightarrow> yaml list \<Rightarrow> event list \<Rightarrow> event list \<times> py_error option" where
  "print_details E not_started ready_to_implement implemented tr =
     and_then (if not_started \<noteq> []
               then print_issues E not_started (tr @ [Print text_list_not_started])
               else (tr, None)) (\<lambda>tr1.
     let tr2 = tr1 @ [Print ''''] in
     and_then (if ready_to_implement \<noteq> []
               then print_issues E ready_to_implement (tr2 @ [Print text_list_ready])
               else (tr2, None)) (\<lambda>tr3.
     let tr4 = tr3 @ [Print ''''] in
     and_then (if implemented \<noteq> []
               then and_then (print_issues E (take 5 implemented)
                                (tr4 @ [Print text_list_implemented])) (\<lambda>tr5.
                      if length implemented > 5
                      then (tr5 @ [Print (text_more @ dec_nat (length implemented - 5) @ text_items)],
                            None)
                      else (tr5, None))
               else (tr4, None)) (\<lambda>tr6.
       (tr6 @ [Print ''''], None))))"

text \<open>Lines 73 to 82.\<close>

definition pr_line :: "env \<Rightarrow> yaml \<Rightarrow> py_error + string" where
  "pr_line E pr =
     (case subscript pr ''state'' of Inl e \<Rightarrow> Inl e | Inr state \<Rightarrow>
     (case number_and_title E pr of Inl e \<Rightarrow> Inl e | Inr s \<Rightarrow>
        Inr (''  '' @ (if state = YStr ''OPEN'' then green_circle else purple_circle) @ '' PR #'' @ s)))"

fun print_prs_loop :: "env \<Rightarrow> yaml list \<Rightarrow> event list \<Rightarrow> event list \<times> py_error option" where
  "print_prs_loop E [] tr = (tr, None)"
| "print_prs_loop E (pr # rest) tr =
     (case pr_line E pr of
        Inl e \<Rightarrow> (tr, Some e)
      | Inr s \<Rightarrow> print_prs_loop E rest (tr @ [Print s]))"

definition print_prs :: "env \<Rightarrow> event list \<Rightarrow> event list \<times> py_error option" where
  "print_prs E tr =
     (let tr0 = tr @ [Print text_latest_prs];
          pr_cmd = [''gh'', ''pr'', ''list'', ''--json'', ''number,title,state,createdAt'', ''--limit'', ''5''];
          (outcome, tr1) = run E tr0 pr_cmd
      in case outcome of
           Inl msg \<Rightarrow> (tr1, Some (OSError msg))
         | Inr pr_result \<Rightarrow>
             and_then (if returncode pr_result = 0
                       then (case json_loads E (stdout pr_result) of
                               Inl e \<Rightarrow> (tr1, Some e)
                             | Inr prs \<Rightarrow>
                                 (case py_iter prs of
                                    Inl e \<Rightarrow> (tr1, Some e)
                                  | Inr items \<Rightarrow> print_prs_loop E items tr1))
                       else (tr1, None)) (\<lambda>tr2.
               (tr2 @ [Print ''''], None)))"

text \<open>Lines 85 to 96. \<^verbatim>\<open>not_started[0]['number']\<close> is read on a list that is not empty.\<close>

definition print_actions ::
  "env \<Rightarrow> yaml list \<Rightarrow> yaml list \<Rightarrow> event list \<Rightarrow> event list \<times> py_error option" where
  "print_actions E not_started ready_to_implement tr =
     (let tr0 = tr @ [Print text_next_actions] in
     and_then (case not_started of
                 [] \<Rightarrow> (tr0, None)
               | first # _ \<Rightarrow>
                   let tr1 = tr0 @ [Print text_action_1]
                   in (case subscript first ''number'' of
                         Inl e \<Rightarrow> (tr1, Some e)
                       | Inr n \<Rightarrow>
                           (tr1 @ [Print (''     gh issue edit '' @ py_str E n @
                                          '' --add-label ready-to-implement'')],
                            None))) (\<lambda>tr2.
     and_then (case ready_to_implement of
                 [] \<Rightarrow> (tr2, None)
               | first # _ \<Rightarrow>
                   let tr3 = tr2 @ [Print text_action_2]
                   in (case subscript first ''number'' of
                         Inl e \<Rightarrow> (tr3, Some e)
                       | Inr n \<Rightarrow> (tr3 @ [Print (''     gh issue view '' @ py_str E n)], None))) (\<lambda>tr4.
       (tr4 @ [Print text_action_3,
               Print text_workflow_run,
               Print '''',
               Print rule_line],
        None))))"

text \<open>The dashboard, lines 10 to 96: what it prints first, the command that lists the issues,
  and the whole procedure.\<close>

definition dashboard_header :: "env \<Rightarrow> event list" where
  "dashboard_header E =
     [Print rule_line,
      Print text_dashboard_title,
      Print rule_line,
      Print (text_calendar @ now E),
      Print '''']"

definition issue_list_cmd :: "string list" where
  "issue_list_cmd =
     [''gh'', ''issue'', ''list'', ''--json'', ''number,title,labels,state,createdAt,url'',
      ''--limit'', ''50'']"

definition show_dashboard :: "env \<Rightarrow> event list \<times> py_error option" where
  "show_dashboard E =
     (let (outcome, tr1) = run E (dashboard_header E) issue_list_cmd
      in case outcome of
           Inl msg \<Rightarrow> (tr1, Some (OSError msg))
         | Inr result \<Rightarrow>
             if returncode result \<noteq> 0
             then (tr1 @ [Print (cross_mark @ '' Failed to fetch issues'')], None)
             else
     (case json_loads E (stdout result) of
        Inl e \<Rightarrow> (tr1, Some e)
      | Inr issues \<Rightarrow>
     (case py_iter issues of
        Inl e \<Rightarrow> (tr1, Some e)
      | Inr items \<Rightarrow>
     (case categorize items [] [] [] of
        Inl e \<Rightarrow> (tr1, Some e)
      | Inr (not_started, ready_to_implement, implemented) \<Rightarrow>
     (case py_len issues of
        Inl e \<Rightarrow> (tr1, Some e)
      | Inr total_n \<Rightarrow>
          and_then (print_statistics E total_n not_started ready_to_implement implemented tr1) (\<lambda>tr2.
          and_then (print_details E not_started ready_to_implement implemented tr2) (\<lambda>tr3.
          and_then (print_prs E tr3) (\<lambda>tr4.
            print_actions E not_started ready_to_implement tr4))))))))"

text \<open>The three buckets as the specification names them: the label \<^verbatim>\<open>implemented\<close> goes before
  the label \<^verbatim>\<open>ready-to-implement\<close>.\<close>

datatype bucket = Implemented | ReadyToImplement | NotStarted

definition bucket_of :: "yaml list \<Rightarrow> bucket" where
  "bucket_of labels =
     (if YStr ''implemented'' \<in> set labels then Implemented
      else if YStr ''ready-to-implement'' \<in> set labels then ReadyToImplement
      else NotStarted)"

text \<open>Lines 98 to 114: the outcome of the call is not looked at.\<close>

definition milestones :: "(string \<times> string \<times> string) list" where
  "milestones =
     [(''MVP'', text_mvp, ''2024-12-31''),
      (''Beta'', text_beta, ''2025-01-15''),
      (''Production'', text_production, ''2025-01-31'')]"

fun milestone_loop :: "env \<Rightarrow> (string \<times> string \<times> string) list \<Rightarrow> event list \<Rightarrow> event list \<times> py_error option" where
  "milestone_loop E [] tr = (tr, None)"
| "milestone_loop E ((title, description, due_on) # rest) tr =
     (let cmd = [''gh'', ''api'', ''repos/:owner/:repo/milestones'',
                 ''-f'', ''title='' @ title,
                 ''-f'', ''description='' @ description,
                 ''-f'', ''due_on='' @ due_on];
          (outcome, tr1) = run E tr cmd
      in case outcome of
           Inl msg \<Rightarrow> (tr1, Some (OSError msg))
         | Inr result \<Rightarrow>
             milestone_loop E rest (tr1 @ [Print (check_mark @ '' Created milestone: '' @ title)]))"

definition create_milestone :: "env \<Rightarrow> event list \<times> py_error option" where
  "create_milestone E = milestone_loop E milestones []"

text \<open>Lines 116 to 122, with \<^verbatim>\<open>sys.argv\<close> as argument.\<close>

definition create_issues_main :: "env \<Rightarrow> string list \<Rightarrow> event list \<times> py_error option" where
  "create_issues_main E argv =
     (if length argv > 1 \<and> argv ! 1 = ''milestone'' then create_milestone E else show_dashboard E)"

section \<open>sync\_implementations.py\<close>

text \<open>The texts the script prints.\<close>

definition name_F1 :: string where
  "name_F1 =
     [CHR 0xE8, CHR 0xB5, CHR 0xB7, CHR 0xE5, CHR 0x8B, CHR 0x95, CHR 0xE7, CHR 0x94, CHR 0xBB] @
     [CHR 0xE9, CHR 0x9D, CHR 0xA2]"

definition name_F2 :: string where
  "name_F2 =
     [CHR 0xE9, CHR 0x9F, CHR 0xB3, CHR 0xE5, CHR 0xA3, CHR 0xB0, CHR 0xE9, CHR 0x8C, CHR 0xB2] @
     [CHR 0xE9, CHR 0x9F, CHR 0xB3]"

definition name_F3 :: string where
  "name_F3 =
     [CHR 0xE6, CHR 0x96, CHR 0x87, CHR 0xE5, CHR 0xAD, CHR 0x97, CHR 0xE8, CHR 0xB5, CHR 0xB7] @
     [CHR 0xE3, CHR 0x81, CHR 0x93, CHR 0xE3, CHR 0x81, CHR 0x97]"

definition name_F4 :: string where
  "name_F4 =
     ''AI'' @
     [CHR 0xE5, CHR 0x8C, CHR 0xBB, CHR 0xE7, CHR 0x99, CHR 0x82, CHR 0xE3, CHR 0x82, CHR 0xA2] @
     [CHR 0xE3, CHR 0x82, CHR 0xB7, CHR 0xE3, CHR 0x82, CHR 0xB9, CHR 0xE3, CHR 0x82, CHR 0xBF] @
     [CHR 0xE3, CHR 0x83, CHR 0xB3, CHR 0xE3, CHR 0x83, CHR 0x88]"

definition text_syncing :: string where
  "text_syncing =
     [CHR 0x0A, CHR 0xF0, CHR 0x9F, CHR 0x94, CHR 0x84] @ '' Syncing ''"

definition text_sync_complete :: string where
  "text_sync_complete =
     [CHR 0x0A, CHR 0xF0, CHR 0x9F, CHR 0x93, CHR 0x8B] @
     '' Sync complete! Review changes and commit if needed.''"

definition claude_branches :: "(string \<times> string \<times> string) list" where
  "claude_branches =
     [(''claude/issue-2-20250602_100108'', ''F1'', name_F1),
      (''claude/issue-3-20250602_101312'', ''F2'', name_F2),
      (''claude/issue-4-20250602_101312'', ''F3'', name_F3),
      (''claude/issue-5-20250602_101323'', ''F4'', name_F4)]"

text \<open>
  Lines 24 to 43. The calls have no \<^verbatim>\<open>check=True\<close>: a return code other than 0 raises nothing
  and only leaves out the line of success. \<^verbatim>\<open>except Exception\<close> catches the OSError of a program
  that could not be started, and the loop goes on with the next branch.
\<close>

fun sync_loop :: "env \<Rightarrow> (string \<times> string \<times> string) list \<Rightarrow> event list \<Rightarrow> event list" where
  "sync_loop E [] tr = tr"
| "sync_loop E ((branch, feature_id, feature_name) # rest) tr =
     (let tr0 = tr @ [Print (text_syncing @ feature_id @ '' ('' @ feature_name @ '') from '' @ branch)];
          cmd_ios = [''git'', ''checkout'', ''origin/'' @ branch, ''--'',
                     ''ios/VoiceKoereq/**/'' @ feature_id @ ''*'',
                     ''ios/VoiceKoereqTests/'' @ feature_id @ ''*''];
          cmd_android = [''git'', ''checkout'', ''origin/'' @ branch, ''--'',
                         ''android/**/'' @ feature_id @ ''*''];
          (outcome1, tr1) = run E tr0 cmd_ios
      in case outcome1 of
           Inl msg \<Rightarrow>
             sync_loop E rest
               (tr1 @ [Print (''  '' @ cross_mark @ '' Error syncing '' @ feature_id @ '': '' @ msg)])
         | Inr result1 \<Rightarrow>
             let tr2 = (if returncode result1 = 0
                        then tr1 @ [Print (''  '' @ check_mark @ '' iOS files synced'')]
                        else tr1);
                 (outcome2, tr3) = run E tr2 cmd_android
             in case outcome2 of
                  Inl msg \<Rightarrow>
                    sync_loop E rest
                      (tr3 @ [Print (''  '' @ cross_mark @ '' Error syncing '' @ feature_id @ '': '' @ msg)])
                | Inr result2 \<Rightarrow>
                    sync_loop E rest
                      (if returncode result2 = 0
                       then tr3 @ [Print (''  '' @ check_mark @ '' Android files synced'')]
                       else tr3))"

text \<open>Lines 9 to 49. The name of the current branch is read and not used.\<close>

definition sync_claude_implementations :: "env \<Rightarrow> event list \<times> py_error option" where
  "sync_claude_implementations E =
     (case run E [] [''git'', ''branch'', ''--show-current''] of
        (Inl msg, tr1) \<Rightarrow> (tr1, Some (OSError msg))
      | (Inr result, tr1) \<Rightarrow>
          let tr2 = sync_loop E claude_branches tr1
          in (case run E tr2 [''git'', ''add'', ''.''] of
                (Inl msg, tr3) \<Rightarrow> (tr3, Some (OSError msg))
              | (Inr added, tr3) \<Rightarrow>
                  (case run E tr3 [''git'', ''status'', ''--short''] of
                     (Inl msg, tr4) \<Rightarrow> (tr4, Some (OSError msg))
                   | (Inr status, tr4) \<Rightarrow>
                       (tr4 @ [Print text_sync_complete],
                        None))))"

section \<open>What the specification says of a trace\<close>

text \<open>
  The sleeps of the batch trigger as the specification words them: a sleep of 30 seconds
  between each two successive calls, none before the first call and none after the last.
\<close>

fun sleeps_only_between_calls :: "effect list \<Rightarrow> bool" where
  "sleeps_only_between_calls [] = True"
| "sleeps_only_between_calls [Call c r] = True"
| "sleeps_only_between_calls (Call c r # Pause n # Call c' r' # rest) =
     (n = 30 \<and> sleeps_only_between_calls (Call c' r' # rest))"
| "sleeps_only_between_calls _ = False"

text \<open>
  The sleeps as the loop makes them: a call that succeeded and has a successor is followed by
  a sleep of 30 seconds and then by the successor; a call that did not succeed is followed by
  its successor at once; nothing is said of what follows the last call.
\<close>

fun sleeps_after_success :: "effect list \<Rightarrow> bool" where
  "sleeps_after_success [] = True"
| "sleeps_after_success [Call c r] = True"
| "sleeps_after_success [Call c r, Pause n] = True"
| "sleeps_after_success (Call c r # Pause n # Call c' r' # rest) =
     (n = 30 \<and> succeeded r \<and> sleeps_after_success (Call c' r' # rest))"
| "sleeps_after_success (Call c r # Call c' r' # rest) =
     (\<not> succeeded r \<and> sleeps_after_success (Call c' r' # rest))"
| "sleeps_after_success _ = False"

fun is_call :: "effect \<Rightarrow> bool" where
  "is_call (Call c r) = True"
| "is_call (Pause n) = False"


section \<open>Concrete inputs\<close>

text \<open>An environment in which only the view of feature F1 exists and every command succeeds
  silently, one with no file at all, one in which every command returns 1, and one in which
  the comment on issue 1 fails. Then three specification files.\<close>

definition env_F1 :: env where
  "env_F1 =
     \<lparr> path_exists = (\<lambda>p. p = ''ios/VoiceKoereq/Views/F1View.swift''),
       subprocess_run = (\<lambda>tr cmd. Inr \<lparr> returncode = 0, stdout = '''', stderr = '''' \<rparr>),
       command_writes = (\<lambda>tr cmd. []),
       render = (\<lambda>v. ''?''),
       format_1f = (\<lambda>q. ''?''),
       strip = (\<lambda>s. s),
       parse_int = (\<lambda>s. Inr 0),
       now = ''2025-06-02 10:00:00'',
       json_loads = (\<lambda>s. Inr (YSeq [])),
       answer = (\<lambda>tr p. Inr ''y'') \<rparr>"

definition env_no_files :: env where
  "env_no_files = env_F1 \<lparr> path_exists := (\<lambda>p. False) \<rparr>"


definition env_fail_issue_1 :: env where
  "env_fail_issue_1 =
     env_F1 \<lparr> subprocess_run := (\<lambda>tr cmd.
       if cmd ! 3 = ''1'' then Inr \<lparr> returncode = 1, stdout = '''', stderr = ''no'' \<rparr>
       else Inr \<lparr> returncode = 0, stdout = '''', stderr = '''' \<rparr>) \<rparr>"

definition features_F1_F2 :: "yaml list" where
  "features_F1_F2 = [YMap [(''id'', YStr ''F1'')], YMap [(''id'', YStr ''F2'')]]"

definition spec_F1_F2 :: yaml where
  "spec_F1_F2 = YMap [(''features'', YSeq features_F1_F2)]"

definition spec_blank_id :: yaml where
  "spec_blank_id = YMap [(''features'', YSeq [YMap [(''id'', YStr '''')]])]"



definition issue_done :: yaml where
  "issue_done =
     YMap [(''number'', YInt 7), (''title'', YStr ''Recorder''),
           (''labels'', YSeq [YMap [(''name'', YStr ''ready-to-implement'')],
                              YMap [(''name'', YStr ''implemented'')]])]"

definition issue_new :: yaml where
  "issue_new = YMap [(''number'', YInt 8), (''title'', YStr ''Offline''), (''labels'', YSeq [])]"

text \<open>Twenty-five features of which the first seven have their view, and an environment in
  which \<^verbatim>\<open>git checkout\<close> of the branch of issue 2 writes the view of feature F1 into the working
  tree.\<close>

definition ids_1_to_7 :: "string list" where
  "ids_1_to_7 = [''F1'', ''F2'', ''F3'', ''F4'', ''F5'', ''F6'', ''F7'']"

definition ids_8_to_25 :: "string list" where
  "ids_8_to_25 =
     [''F8'', ''F9'', ''F10'', ''F11'', ''F12'', ''F13'', ''F14'', ''F15'', ''F16'', ''F17'',
      ''F18'', ''F19'', ''F20'', ''F21'', ''F22'', ''F23'', ''F24'', ''F25'']"

definition features_25 :: "yaml list" where
  "features_25 = map (\<lambda>i. YMap [(''id'', YStr i)]) (ids_1_to_7 @ ids_8_to_25)"

definition spec_25 :: yaml where
  "spec_25 = YMap [(''features'', YSeq features_25)]"

definition env_seven_views :: env where
  "env_seven_views =
     env_F1 \<lparr> path_exists := (\<lambda>p.
       p \<in> set (map (\<lambda>i. ''ios/VoiceKoereq/Views/'' @ i @ ''View.swift'') ids_1_to_7)) \<rparr>"

definition env_git :: env where
  "env_git =
     env_F1 \<lparr> command_writes := (\<lambda>tr cmd.
       if cmd = [''git'', ''checkout'', ''origin/claude/issue-2-20250602_100108'', ''--'',
                 ''ios/VoiceKoereq/**/F1*'', ''ios/VoiceKoereqTests/F1*'']
       then [''ios/VoiceKoereq/Views/F1View.swift''] else []) \<rparr>"

section \<open>Properties of the rounding to a double\<close>

text \<open>The exponent brackets its argument, the rounding of a quotient to an integer is off by
  at most one half, hence the rounding to 53 bits of a number below \<open>2 powi (k + 1)\<close> is off by
  at most \<open>2 powi (k - 53)\<close>.\<close>

lemma bit_length_bounds:
  "0 < n \<Longrightarrow> 2 ^ (bit_length n - 1) \<le> n \<and> n < 2 ^ bit_length n"
proof (induction n rule: bit_length.induct)
  case (1 n)
  show ?case
  proof (cases "n div 2 = 0")
    case True
    with 1(2) have "n = 1" by (simp add: div_eq_0_iff) 
    then show ?thesis by simp
  next
    case False
    with 1 have ih: "2 ^ (bit_length (n div 2) - 1) \<le> n div 2" "n div 2 < 2 ^ bit_length (n div 2)"
      by auto
    have pos: "0 < bit_length (n div 2)"
      using False by simp
    have eq: "bit_length n = Suc (bit_length (n div 2))"
      using 1(2) by simp
    from pos obtain k where k: "bit_length (n div 2) = Suc k"
      by (cases "bit_length (n div 2)") auto
    have n: "2 * (n div 2) \<le> n" "n \<le> 2 * (n div 2) + 1"
      by presburger+
    from ih have "(2::nat) ^ Suc k \<le> 2 * (n div 2)" "2 * (n div 2) + 1 < (2::nat) ^ Suc (Suc k)"
      unfolding k by simp_all
    with n have "(2::nat) ^ Suc k \<le> n" "n < (2::nat) ^ Suc (Suc k)"
      by linarith+
    then show ?thesis
      unfolding eq k by simp
  qed
qed

lemma round_half_even_error: "\<bar>of_int (round_half_even q) - q\<bar> \<le> 1 / 2"
proof -
  define r where "r = \<lfloor>q\<rfloor>"
  have lo: "of_int r \<le> q" and hi: "q < of_int r + 1"
    unfolding r_def by linarith+
  have "round_half_even q = r \<and> q - of_int r \<le> 1 / 2 \<or>
        round_half_even q = r + 1 \<and> 1 / 2 \<le> q - of_int r"
    unfolding round_half_even_def Let_def r_def [symmetric] by auto
  then show ?thesis
    using lo hi by (auto simp: abs_le_iff)
qed

lemma bit_length_pos: "0 < n \<Longrightarrow> 0 < bit_length n"
  by simp

lemma exponent_of_bounds:
  assumes "0 < x"
  shows "2 powi exponent_of x \<le> x \<and> x < 2 powi (exponent_of x + 1)"
proof (cases "1 \<le> x")
  case True
  define n where "n = nat \<lfloor>x\<rfloor>"
  have n: "0 < n" "of_nat n \<le> x" "x < of_nat n + 1"
    using True unfolding n_def by (simp_all add: floor_less_iff) linarith+
  define b where "b = bit_length n"
  from bit_length_bounds [OF n(1)] have bb: "2 ^ (b - 1) \<le> n" "n < 2 ^ b"
    unfolding b_def by simp_all
  have b: "0 < b"
    unfolding b_def using n(1) by (rule bit_length_pos)
  have e: "exponent_of x = int (b - 1)"
    using True b by (simp add: exponent_of_def n_def b_def)
  have lo: "(2::rat) ^ (b - 1) \<le> x"
  proof -
    have "(2::rat) ^ (b - 1) = of_nat (2 ^ (b - 1))" by simp
    also have "\<dots> \<le> of_nat n" using bb(1) by (simp only: of_nat_le_iff)
    finally show ?thesis using n(2) by linarith
  qed
  have hi: "x < (2::rat) ^ b"
  proof -
    have "n + 1 \<le> 2 ^ b" using bb(2) by simp
    then have "(of_nat (n + 1) :: rat) \<le> of_nat (2 ^ b)" by (simp only: of_nat_le_iff)
    then show ?thesis using n(3) by simp
  qed
  have s: "int (b - 1) + 1 = int b" using b by simp
  have p1: "(2::rat) powi int (b - 1) = 2 ^ (b - 1)"
    by (rule power_int_of_nat)
  have p2: "(2::rat) powi (int (b - 1) + 1) = 2 ^ b"
    unfolding s by (rule power_int_of_nat)
  show ?thesis
    unfolding e p1 p2 using lo hi by blast
next
  case False
  then have x1: "x < 1" by simp
  define k where "k = \<lceil>1 / x\<rceil>"
  define m where "m = nat (k - 1)"
  have inv: "1 < 1 / x"
    using assms x1 by simp
  have k: "of_int k - 1 < 1 / x" "1 / x \<le> of_int k"
    unfolding k_def by linarith+
  from inv k(2) have "(1::rat) < of_int k" by linarith
  then have c: "2 \<le> k" by linarith
  then have mk: "(of_nat m :: rat) = of_int k - 1"
    unfolding m_def by simp
  have m: "0 < m" "of_nat m < 1 / x" "1 / x \<le> of_nat m + 1"
    using c k unfolding mk by (simp_all add: m_def)
  define b where "b = bit_length m"
  from bit_length_bounds [OF m(1)] have bb: "2 ^ (b - 1) \<le> m" "m < 2 ^ b"
    unfolding b_def by simp_all
  have b: "0 < b"
    unfolding b_def using m(1) by (rule bit_length_pos)
  have e: "exponent_of x = - int b"
    using False by (simp add: exponent_of_def m_def b_def k_def)
  have up: "1 / x \<le> (2::rat) ^ b"
  proof -
    have "m + 1 \<le> 2 ^ b" using bb(2) by simp
    then have "(of_nat (m + 1) :: rat) \<le> of_nat (2 ^ b)" by (simp only: of_nat_le_iff)
    then show ?thesis using m(3) by simp
  qed
  have dn: "(2::rat) ^ (b - 1) < 1 / x"
  proof -
    have "(2::rat) ^ (b - 1) = of_nat (2 ^ (b - 1))" by simp
    also have "\<dots> \<le> of_nat m" using bb(1) by (simp only: of_nat_le_iff)
    finally show ?thesis using m(2) by linarith
  qed
  have lo: "inverse ((2::rat) ^ b) \<le> x"
  proof -
    have "inverse ((2::rat) ^ b) \<le> inverse (1 / x)"
      using up assms by (intro le_imp_inverse_le) simp_all
    then show ?thesis by simp
  qed
  have hi: "x < inverse ((2::rat) ^ (b - 1))"
  proof -
    have "inverse (1 / x) < inverse ((2::rat) ^ (b - 1))"
      using dn by (intro less_imp_inverse_less) simp_all
    then show ?thesis by simp
  qed
  have s: "- int b + 1 = - int (b - 1)" using b by simp
  have p1: "(2::rat) powi (- int b) = inverse (2 ^ b)"
    by (simp only: power_int_minus power_int_of_nat)
  have p2: "(2::rat) powi (- int b + 1) = inverse (2 ^ (b - 1))"
    unfolding s by (simp only: power_int_minus power_int_of_nat)
  show ?thesis
    unfolding e p1 p2 using lo hi by blast
qed

lemma two_powi_minus_53: "(2::rat) powi (0 - 53) = 1 / 2 ^ 53"
  by (simp add: power_int_def power_one_over)

lemma two_powi_minus_47: "(2::rat) powi (6 - 53) = 1 / 2 ^ 47"
  by (simp add: power_int_def power_one_over)

lemma two_powi_small: "(2::rat) powi (0 + 1) = 2" "(2::rat) powi (6 + 1) = 128"
  by (simp_all add: power_int_def)

lemma round_double_error:
  assumes "\<bar>x\<bar> < 2 powi (k + 1)"
  shows "\<bar>round_double x - x\<bar> \<le> 2 powi (k - 53)"
proof (cases "x = 0")
  case True
  then show ?thesis by (simp add: round_double_def)
next
  case False
  define a where "a = \<bar>x\<bar>"
  define e where "e = exponent_of a"
  define u :: rat where "u = 2 powi (e - 52)"
  define n where "n = round_half_even (a / u)"
  have a: "0 < a" unfolding a_def using False by simp
  from exponent_of_bounds [OF a] have lo: "2 powi e \<le> a"
    unfolding e_def by simp
  have ek: "e \<le> k"
  proof (rule ccontr)
    assume "\<not> e \<le> k"
    then have "k + 1 \<le> e" by simp
    then have "(2::rat) powi (k + 1) \<le> 2 powi e"
      by (intro power_int_increasing) simp_all
    with lo assms show False unfolding a_def by linarith
  qed
  have u: "0 < u" unfolding u_def by simp
  have half: "u / 2 = 2 powi (e - 53)"
  proof -
    have "(2::rat) powi (e - 52) = 2 powi ((e - 53) + 1)" by simp
    also have "\<dots> = 2 powi (e - 53) * 2"
      by (subst power_int_add) simp_all
    finally show ?thesis unfolding u_def by simp
  qed
  have "\<bar>of_int n - a / u\<bar> \<le> 1 / 2"
    unfolding n_def by (rule round_half_even_error)
  then have "\<bar>of_int n - a / u\<bar> * u \<le> 1 / 2 * u"
    using u by (intro mult_right_mono) simp_all
  moreover have "\<bar>of_int n - a / u\<bar> * u = \<bar>of_int n * u - a\<bar>"
  proof -
    have "\<bar>of_int n - a / u\<bar> * u = \<bar>(of_int n - a / u) * u\<bar>"
      using u by (simp add: abs_mult)
    also have "(of_int n - a / u) * u = of_int n * u - a"
      using u by (simp add: algebra_simps)
    finally show ?thesis .
  qed
  ultimately have err: "\<bar>of_int n * u - a\<bar> \<le> 2 powi (e - 53)"
    using half by simp
  have "(2::rat) powi (e - 53) \<le> 2 powi (k - 53)"
    using ek by (intro power_int_increasing) simp_all
  with err have bound: "\<bar>of_int n * u - a\<bar> \<le> 2 powi (k - 53)"
    by linarith
  show ?thesis
  proof (cases "x < 0")
    case True
    then have "round_double x = - (of_int n * u)" "x = - a"
      using False unfolding round_double_def Let_def n_def u_def e_def a_def by simp_all
    then have "\<bar>round_double x - x\<bar> = \<bar>of_int n * u - a\<bar>"
      by (simp add: abs_minus_commute)
    with bound show ?thesis by simp
  next
    case pos: False
    then have "round_double x = of_int n * u" "x = a"
      using False unfolding round_double_def Let_def n_def u_def e_def a_def by simp_all
    with bound show ?thesis by simp
  qed
qed

lemma percent_error:
  assumes "a \<le> b" and "0 < b"
  shows "\<bar>percent a b - of_nat a / of_nat b * 100\<bar> \<le> 1 / 2 ^ 45"
proof -
  define x :: rat where "x = of_nat a / of_nat b"
  define y where "y = round_double x * 100"
  define d1 :: rat where "d1 = 1 / 2 ^ 53"
  define d2 :: rat where "d2 = 1 / 2 ^ 47"
  have d: "d1 \<le> 1 / 4" "d2 + 100 * d1 \<le> 1 / 2 ^ 45"
    unfolding d1_def d2_def by simp_all
  have x: "0 \<le> x" "x \<le> 1"
    using assms unfolding x_def by simp_all
  then have "\<bar>x\<bar> < 2 powi (0 + 1)" unfolding two_powi_small by simp
  from round_double_error [OF this] have e1: "\<bar>round_double x - x\<bar> \<le> d1"
    unfolding two_powi_minus_53 d1_def .
  with x d(1) have rx: "\<bar>round_double x\<bar> \<le> 5 / 4"
    by linarith
  have "\<bar>y\<bar> = \<bar>round_double x\<bar> * 100"
    unfolding y_def by (simp add: abs_mult)
  with rx have "\<bar>y\<bar> < 2 powi (6 + 1)" unfolding two_powi_small by linarith
  from round_double_error [OF this] have e2: "\<bar>round_double y - y\<bar> \<le> d2"
    unfolding two_powi_minus_47 d2_def .
  have "y - x * 100 = (round_double x - x) * 100"
    unfolding y_def by (simp add: algebra_simps)
  then have "\<bar>y - x * 100\<bar> = \<bar>(round_double x - x) * 100\<bar>"
    by (rule arg_cong)
  also have "\<dots> = \<bar>round_double x - x\<bar> * 100"
    by (simp only: abs_mult abs_numeral)
  finally have "\<bar>y - x * 100\<bar> = \<bar>round_double x - x\<bar> * 100" .
  with e1 have e3: "\<bar>y - x * 100\<bar> \<le> 100 * d1" by simp
  have "\<bar>round_double y - x * 100\<bar> \<le> \<bar>round_double y - y\<bar> + \<bar>y - x * 100\<bar>"
    by linarith
  with e2 e3 d(2) have "\<bar>round_double y - x * 100\<bar> \<le> 1 / 2 ^ 45"
    by linarith
  then show ?thesis
    unfolding percent_def y_def x_def .
qed

lemma percent_7_25: "percent 7 25 = 7881299347898369 / 281474976710656"
  by code_simp

lemma percent_1_2: "percent 1 2 = 50"
  by code_simp

section \<open>Traces\<close>

lemma commands_append: "commands (xs @ ys) = commands xs @ commands ys"
  by (induction xs rule: commands.induct) auto

lemma effects_append: "effects (xs @ ys) = effects xs @ effects ys"
  by (induction xs rule: effects.induct) auto

lemma prints_append: "prints (xs @ ys) = prints xs @ prints ys"
  by (induction xs rule: prints.induct) auto

lemma dumps_append: "dumps (xs @ ys) = dumps xs @ dumps ys"
  by (induction xs rule: dumps.induct) auto

lemma strip_prefix_append: "strip_prefix p (p @ s) = Some s"
  by (induction p) auto



lemma outside_append: "outside g (xs @ ys) = outside g xs @ outside g ys"
  by (induction xs rule: outside.induct) auto

lemma outside_and_then:
  assumes "outside g (fst r) = []" and "\<And>tr. outside g tr = [] \<Longrightarrow> outside g (fst (k tr)) = []"
  shows "outside g (fst (and_then r k)) = []"
  using assms by (cases r) (auto simp: and_then_def split: option.splits)

lemma outside_if:
  "(c \<Longrightarrow> outside g (fst a) = []) \<Longrightarrow> (\<not> c \<Longrightarrow> outside g (fst b) = []) \<Longrightarrow>
   outside g (fst (if c then a else b)) = []"
  by simp

lemma outside_run:
  "run E tr cmd = (outcome, tr1) \<Longrightarrow> take 1 cmd = [g] \<Longrightarrow> outside g tr1 = outside g tr"
  by (auto simp: run_def Let_def outside_append)

text \<open>A trace with no such event: the run wrote no file itself and started no other
  program; and then the files changed are those the commands of that program wrote.\<close>

lemma only_program_outside: "only_program g tr \<longleftrightarrow> outside g tr = []"
  unfolding only_program_def by (induction tr rule: outside.induct) auto

lemma changed_after_only_program:
  assumes "\<forall>tr cmd. take 1 cmd = [g] \<longrightarrow> command_writes E tr cmd = []"
  shows "outside g tr = [] \<Longrightarrow> changed_after E before tr = []"
  using assms by (induction E before tr rule: changed_after.induct) (auto split: sum.splits if_splits)

lemma changed_after_no_commands:
  "commands tr = [] \<Longrightarrow> changed_after E before tr = map fst (dumps tr)"
  by (induction E before tr rule: changed_after.induct) auto
section \<open>Properties of check\_progress.py\<close>

lemma scan_features_ids:
  "list_all2 (\<lambda>f i. subscript f ''id'' = Inr i) fs ids \<Longrightarrow>
   scan_features E fs a b =
     Inr (a @ filter (\<lambda>i. path_exists E (view_path E i)) ids,
          b @ filter (\<lambda>i. \<not> path_exists E (view_path E i)) ids)"
  by (induction fs ids arbitrary: a b rule: list_all2_induct) auto

lemma strs_of_map: "strs_of (map YStr ss) = Some ss"
  by (induction ss) auto

lemma py_join_strs: "py_join sep (map YStr ss) = Inr (join sep ss)"
  by (simp add: py_join_def strs_of_map)

lemma view_path_str: "view_path E (YStr i) = ''ios/VoiceKoereq/Views/'' @ i @ ''View.swift''"
  by (simp add: view_path_def py_str_def)

lemma list_all2_str_ids:
  "list_all2 (\<lambda>f i. subscript f ''id'' = Inr (YStr i)) fs ids \<Longrightarrow>
   list_all2 (\<lambda>f i. subscript f ''id'' = Inr i) fs (map YStr ids)"
  by (simp add: list_all2_map2)

text \<open>On a specification whose features are mappings with string ids, the run raises
  nothing, and its trace is four printed lines and the report.\<close>

lemma check_progress_ok:
  assumes spec: "subscript spec ''features'' = Inr (YSeq fs)"
    and ids: "list_all2 (\<lambda>f i. subscript f ''id'' = Inr (YStr i)) fs ids"
  shows "check_progress E spec =
    (let impl = filter (\<lambda>i. path_exists E (''ios/VoiceKoereq/Views/'' @ i @ ''View.swift'')) ids;
         pend = filter (\<lambda>i. \<not> path_exists E (''ios/VoiceKoereq/Views/'' @ i @ ''View.swift'')) ids;
         p = progress_of (length impl) (length fs)
     in ([Print (progress_line E (length impl) (length fs) p),
          Print (implemented_label @ join '', '' impl),
          Print (pending_label @ join '', '' pend),
          Print (next_feature_line E (map YStr pend)),
          Dump ''progress.json''
            (progress_data (length fs) (length impl) p (map YStr impl) (map YStr pend))],
         None))"
proof -
  have scan: "scan_features E fs [] [] =
      Inr (map YStr (filter (\<lambda>i. path_exists E (''ios/VoiceKoereq/Views/'' @ i @ ''View.swift'')) ids),
           map YStr (filter (\<lambda>i. \<not> path_exists E (''ios/VoiceKoereq/Views/'' @ i @ ''View.swift'')) ids))"
    using scan_features_ids [OF list_all2_str_ids [OF ids], of E "[]" "[]"]
    by (simp add: filter_map comp_def view_path_str)
  show ?thesis
    by (simp add: check_progress_def spec scan py_join_strs Let_def)
qed

lemma first_of_filter:
  "(case filter P xs of [] \<Rightarrow> d | x # _ \<Rightarrow> x) = (case find P xs of None \<Rightarrow> d | Some x \<Rightarrow> x)"
  by (induction xs) auto

lemma first_blank_iff:
  "[] \<notin> set xs \<Longrightarrow>
   ((case find P xs of None \<Rightarrow> [] | Some x \<Rightarrow> x) = [] \<longleftrightarrow> (\<forall>x \<in> set xs. \<not> P x))"
  by (induction xs) auto

text \<open>Whatever the specification holds, a run writes no file but the report, and the report
  has the five keys in this order.\<close>

lemma dumps_check_progress_keys:
  "(p, d) \<in> set (dumps (fst (check_progress E spec))) \<Longrightarrow>
     p = ''progress.json'' \<and>
     map fst d = [''total_features'', ''implemented'', ''progress_percentage'',
                  ''implemented_features'', ''pending_features'']"
  by (auto simp: check_progress_def Let_def progress_data_def split: sum.splits prod.splits)

lemma next_feature_outputs_ok:
  assumes spec: "subscript spec ''features'' = Inr (YSeq fs)"
    and ids: "list_all2 (\<lambda>f i. subscript f ''id'' = Inr (YStr i)) fs ids"
  shows "next_feature_outputs (fst (check_progress E spec)) =
     [case find (\<lambda>i. \<not> path_exists E (''ios/VoiceKoereq/Views/'' @ i @ ''View.swift'')) ids of
        None \<Rightarrow> '''' | Some i \<Rightarrow> i]"
proof -
  let ?pfx = "''::set-output name=next_feature::''"
  have l1: "strip_prefix ?pfx (progress_line E a b c) = None" for a b c
    by (simp add: progress_line_def progress_label_def)
  have l2: "strip_prefix ?pfx (implemented_label @ s) = None" for s
    by (simp add: implemented_label_def)
  have l3: "strip_prefix ?pfx (pending_label @ s) = None" for s
    by (simp add: pending_label_def)
  have l4: "strip_prefix ?pfx (next_feature_line E (map YStr pend)) =
              Some (case pend of [] \<Rightarrow> '''' | i # _ \<Rightarrow> i)" for pend
    using strip_prefix_append [of ?pfx]
    by (cases pend) (simp_all add: next_feature_line_def py_str_def del: strip_prefix.simps)
  show ?thesis
    unfolding check_progress_ok [OF spec ids] next_feature_outputs_def Let_def
    by (simp add: List.map_filter_simps l1 l2 l3 l4 first_of_filter del: strip_prefix.simps)
qed

text \<open>Whatever the ids are, the first line of a run is the progress line and a report holds
  the percentage of that line.\<close>

lemma check_progress_percentage:
  assumes spec: "subscript spec ''features'' = Inr (YSeq fs)"
    and ids: "list_all2 (\<lambda>f i. subscript f ''id'' = Inr i) fs ids"
    and M: "M = length (filter (\<lambda>i. path_exists E (''ios/VoiceKoereq/Views/'' @ py_str E i @ ''View.swift'')) ids)"
  shows "(\<exists>rest. prints (fst (check_progress E spec)) =
            progress_line E M (length fs) (progress_of M (length fs)) # rest) \<and>
         (\<forall>rep. (''progress.json'', rep) \<in> set (dumps (fst (check_progress E spec))) \<longrightarrow>
            map_of rep ''progress_percentage'' = Some (PNum (progress_of M (length fs))))"
proof -
  have scan: "scan_features E fs [] [] =
      Inr (filter (\<lambda>i. path_exists E (''ios/VoiceKoereq/Views/'' @ py_str E i @ ''View.swift'')) ids,
           filter (\<lambda>i. \<not> path_exists E (''ios/VoiceKoereq/Views/'' @ py_str E i @ ''View.swift'')) ids)"
    using scan_features_ids [OF ids, of E "[]" "[]"] by (simp add: view_path_def)
  show ?thesis
    unfolding check_progress_def spec sum.case
    by (simp add: scan M Let_def progress_data_def prints_append dumps_append
        split: sum.splits)
qed

lemma round_double_half: "round_double (round_double (1 / 2) * 100) = 50"
  by code_simp

text \<open>
  Claim C1. For a specification whose features list has \<open>N\<close> entries with an id, of which
  \<open>M\<close> have an existing view file \<^verbatim>\<open>ios/VoiceKoereq/Views/<id>View.swift\<close>, the first line the
  progress checker prints and every report it writes carry the percentage \<open>p\<close>: the integer 0
  when \<open>N = 0\<close>, and otherwise the float that \<^verbatim>\<open>(M / N) * 100\<close> gives in double precision, the
  quotient rounded to the nearest double, multiplied by 100 and rounded again. This float
  lies within \<open>1 / 2 ^ 45\<close> of \<open>M / N * 100\<close>. When the ids are strings the run ends without an
  exception and writes the report.
\<close>

theorem progress_percentage_double:
  assumes "subscript spec ''features'' = Inr (YSeq fs)"
    and "list_all2 (\<lambda>f i. subscript f ''id'' = Inr i) fs ids"
    and "N = length fs"
    and "M = length (filter (\<lambda>i. path_exists E (''ios/VoiceKoereq/Views/'' @ py_str E i @ ''View.swift'')) ids)"
    and "p = (if N = 0 then PInt 0
              else PFloat (round_double (round_double (of_nat M / of_nat N) * 100)))"
  shows "(\<exists>rest. prints (fst (check_progress E spec)) =
            (progress_label @ dec_nat M @ ''/'' @ dec_nat N @ '' ('' @
             format_1f E (num_value p) @ ''%)'') # rest) \<and>
         (\<forall>rep. (''progress.json'', rep) \<in> set (dumps (fst (check_progress E spec))) \<longrightarrow>
            map_of rep ''progress_percentage'' = Some (PNum p)) \<and>
         ((\<exists>ss. ids = map YStr ss) \<longrightarrow>
            (\<exists>tr rep. check_progress E spec = (tr, None) \<and> dumps tr = [(''progress.json'', rep)])) \<and>
         (N \<noteq> 0 \<longrightarrow> \<bar>num_value p - of_nat M / of_nat N * 100\<bar> \<le> 1 / 2 ^ 45)"
proof -
  have p: "p = progress_of M N"
    using assms(5) by (simp add: progress_of_def percent_def)
  have line: "progress_line E M N p =
      progress_label @ dec_nat M @ ''/'' @ dec_nat N @ '' ('' @ format_1f E (num_value p) @ ''%)''"
    by (simp add: progress_line_def)
  have "M \<le> length ids"
    unfolding assms(4) by (rule length_filter_le)
  also have "length ids = N"
    using assms(2,3) by (simp add: list_all2_lengthD)
  finally have MN: "M \<le> N" .
  have err: "\<bar>num_value p - of_nat M / of_nat N * 100\<bar> \<le> 1 / 2 ^ 45" if "N \<noteq> 0"
    using percent_error [OF MN] that by (simp add: p progress_of_def num_value_def)
  have written: "\<exists>tr rep. check_progress E spec = (tr, None) \<and> dumps tr = [(''progress.json'', rep)]"
    if "ids = map YStr ss" for ss
  proof -
    from assms(2) have "list_all2 (\<lambda>f i. subscript f ''id'' = Inr (YStr i)) fs ss"
      unfolding that by (simp add: list_all2_map2)
    from check_progress_ok [OF assms(1) this] show ?thesis
      by (simp add: Let_def)
  qed
  from check_progress_percentage [OF assms(1,2,4)]
  have "\<exists>rest. prints (fst (check_progress E spec)) = progress_line E M N p # rest"
    and "\<forall>rep. (''progress.json'', rep) \<in> set (dumps (fst (check_progress E spec))) \<longrightarrow>
            map_of rep ''progress_percentage'' = Some (PNum p)"
    unfolding p assms(3) by simp_all
  with err written show ?thesis
    unfolding line by blast
qed

text \<open>With two features, of which F1 has its view: 50 percent.\<close>

theorem progress_percentage_double_witness:
  "(\<exists>rest. prints (fst (check_progress env_F1 spec_F1_F2)) =
      (progress_label @ ''1/2 ('' @ format_1f env_F1 50 @ ''%)'') # rest) \<and>
   (\<exists>tr rep. check_progress env_F1 spec_F1_F2 = (tr, None) \<and>
      dumps tr = [(''progress.json'', rep)] \<and>
      map_of rep ''progress_percentage'' = Some (PNum (PFloat 50)))"
proof -
  have "[YStr ''F1'', YStr ''F2''] = map YStr [''F1'', ''F2'']"
    by simp
  then have "\<exists>ss. [YStr ''F1'', YStr ''F2''] = map YStr ss" ..
  with progress_percentage_double [of spec_F1_F2 features_F1_F2 "[YStr ''F1'', YStr ''F2'']"
      2 1 env_F1 "PFloat 50"]
  show ?thesis
    by (auto simp: spec_F1_F2_def features_F1_F2_def env_F1_def py_str_def round_double_half
        num_value_def)
qed

text \<open>
  The float need not be the ratio itself: with 7 of 25 features implemented the report holds
  \<open>7881299347898369 / 2 ^ 48\<close>, the double next above 28, which Python writes as
  \<^verbatim>\<open>28.000000000000004\<close>.
\<close>

theorem progress_percentage_not_exact_counterexample:
  "\<exists>tr rep. check_progress env_seven_views spec_25 = (tr, None) \<and>
     dumps tr = [(''progress.json'', rep)] \<and>
     map_of rep ''total_features'' = Some (PNum (PInt 25)) \<and>
     map_of rep ''implemented'' = Some (PNum (PInt 7)) \<and>
     map_of rep ''progress_percentage'' =
       Some (PNum (PFloat (7881299347898369 / 281474976710656))) \<and>
     map_of rep ''progress_percentage'' \<noteq> Some (PNum (PFloat (7 / 25 * 100)))"
proof -
  have spec: "subscript spec_25 ''features'' = Inr (YSeq features_25)"
    by (simp add: spec_25_def)
  have ids: "list_all2 (\<lambda>f i. subscript f ''id'' = Inr (YStr i)) features_25 (ids_1_to_7 @ ids_8_to_25)"
    unfolding features_25_def by (simp only: list_all2_map1 list_all2_same) simp
  have impl: "filter (\<lambda>i. path_exists env_seven_views (''ios/VoiceKoereq/Views/'' @ i @ ''View.swift''))
      (ids_1_to_7 @ ids_8_to_25) = ids_1_to_7"
    by (simp add: env_seven_views_def ids_1_to_7_def ids_8_to_25_def)
  have n: "length features_25 = 25" "length ids_1_to_7 = 7"
    by (simp_all add: features_25_def ids_1_to_7_def ids_8_to_25_def)
  show ?thesis
    unfolding check_progress_ok [OF spec ids] impl n Let_def
    by (simp add: progress_data_def progress_of_def percent_7_25)
qed

text \<open>
  Claim C3. Whatever the input, a file that a run of the progress checker writes is
  \<^verbatim>\<open>progress.json\<close> and holds exactly the five keys \<^verbatim>\<open>total_features\<close>, \<^verbatim>\<open>implemented\<close>,
  \<^verbatim>\<open>progress_percentage\<close>, \<^verbatim>\<open>implemented_features\<close> and \<^verbatim>\<open>pending_features\<close>. On a specification
  whose features are mappings with string ids the run writes it, and in it \<^verbatim>\<open>total_features\<close>
  is the number of features of the input file, \<^verbatim>\<open>implemented\<close> is the number of features whose
  view file exists, and the two lists hold the ids of the features with and without a view
  file.
\<close>

theorem report_keys_and_counts:
  "(\<forall>(p, rep) \<in> set (dumps (fst (check_progress E spec))).
      p = ''progress.json'' \<and>
      map fst rep = [''total_features'', ''implemented'', ''progress_percentage'',
                     ''implemented_features'', ''pending_features'']) \<and>
   (subscript spec ''features'' = Inr (YSeq fs) \<and>
    list_all2 (\<lambda>f i. subscript f ''id'' = Inr (YStr i)) fs ids \<longrightarrow>
      (\<exists>tr rep. check_progress E spec = (tr, None) \<and>
           dumps tr = [(''progress.json'', rep)] \<and>
           map_of rep ''total_features'' = Some (PNum (PInt (int (length fs)))) \<and>
           map_of rep ''implemented'' = Some (PNum (PInt (int (length
               (filter (\<lambda>i. path_exists E (''ios/VoiceKoereq/Views/'' @ i @ ''View.swift'')) ids))))) \<and>
           map_of rep ''implemented_features'' = Some (PList (map YStr
               (filter (\<lambda>i. path_exists E (''ios/VoiceKoereq/Views/'' @ i @ ''View.swift'')) ids))) \<and>
           map_of rep ''pending_features'' = Some (PList (map YStr
               (filter (\<lambda>i. \<not> path_exists E (''ios/VoiceKoereq/Views/'' @ i @ ''View.swift'')) ids)))))"
proof -
  have keys: "\<forall>(p, rep) \<in> set (dumps (fst (check_progress E spec))).
      p = ''progress.json'' \<and>
      map fst rep = [''total_features'', ''implemented'', ''progress_percentage'',
                     ''implemented_features'', ''pending_features'']"
    using dumps_check_progress_keys [of _ _ E spec] by blast
  have "\<exists>tr rep. check_progress E spec = (tr, None) \<and>
           dumps tr = [(''progress.json'', rep)] \<and>
           map_of rep ''total_features'' = Some (PNum (PInt (int (length fs)))) \<and>
           map_of rep ''implemented'' = Some (PNum (PInt (int (length
               (filter (\<lambda>i. path_exists E (''ios/VoiceKoereq/Views/'' @ i @ ''View.swift'')) ids))))) \<and>
           map_of rep ''implemented_features'' = Some (PList (map YStr
               (filter (\<lambda>i. path_exists E (''ios/VoiceKoereq/Views/'' @ i @ ''View.swift'')) ids))) \<and>
           map_of rep ''pending_features'' = Some (PList (map YStr
               (filter (\<lambda>i. \<not> path_exists E (''ios/VoiceKoereq/Views/'' @ i @ ''View.swift'')) ids)))"
    if "subscript spec ''features'' = Inr (YSeq fs)"
      and "list_all2 (\<lambda>f i. subscript f ''id'' = Inr (YStr i)) fs ids"
    using that by (simp add: check_progress_ok Let_def progress_data_def)
  with keys show ?thesis by blast
qed

theorem report_keys_and_counts_witness:
  "\<exists>tr p. check_progress env_F1 spec_F1_F2 = (tr, None) \<and>
     dumps tr = [(''progress.json'',
       [(''total_features'', PNum (PInt 2)),
        (''implemented'', PNum (PInt 1)),
        (''progress_percentage'', p),
        (''implemented_features'', PList [YStr ''F1'']),
        (''pending_features'', PList [YStr ''F2''])])]"
proof -
  have h1: "subscript spec_F1_F2 ''features'' = Inr (YSeq features_F1_F2)"
    by (simp add: spec_F1_F2_def)
  have h2: "list_all2 (\<lambda>f i. subscript f ''id'' = Inr (YStr i)) features_F1_F2 [''F1'', ''F2'']"
    by (simp add: features_F1_F2_def)
  have ex: "filter (\<lambda>i. path_exists env_F1 (''ios/VoiceKoereq/Views/'' @ i @ ''View.swift''))
        [''F1'', ''F2''] = [''F1'']"
    "filter (\<lambda>i. \<not> path_exists env_F1 (''ios/VoiceKoereq/Views/'' @ i @ ''View.swift''))
        [''F1'', ''F2''] = [''F2'']"
    by (simp_all add: env_F1_def)
  from report_keys_and_counts [of env_F1 spec_F1_F2 features_F1_F2 "[''F1'', ''F2'']"] h1 h2
  obtain tr rep where tr: "check_progress env_F1 spec_F1_F2 = (tr, None)"
    and d: "dumps tr = [(''progress.json'', rep)]"
    and k: "map fst rep = [''total_features'', ''implemented'', ''progress_percentage'',
                     ''implemented_features'', ''pending_features'']"
    and v: "map_of rep ''total_features'' = Some (PNum (PInt (int (length features_F1_F2))))"
      "map_of rep ''implemented'' = Some (PNum (PInt 1))"
      "map_of rep ''implemented_features'' = Some (PList [YStr ''F1''])"
      "map_of rep ''pending_features'' = Some (PList [YStr ''F2''])"
    unfolding ex by fastforce
  from k obtain a b c d' e where rep: "rep = [(''total_features'', a), (''implemented'', b),
      (''progress_percentage'', c), (''implemented_features'', d'), (''pending_features'', e)]"
    by (auto simp: map_eq_Cons_conv)
  with v have "a = PNum (PInt 2)" "b = PNum (PInt 1)" "d' = PList [YStr ''F1'']"
    "e = PList [YStr ''F2'']"
    by (simp_all add: features_F1_F2_def)
  with tr d rep show ?thesis by blast
qed

text \<open>
  Claim C8, as the code has it. On a specification whose features are mappings with string
  ids, the one line \<^verbatim>\<open>::set-output name=next_feature::\<close> a run prints carries the id of the
  first feature, in the order of the file, whose view file does not exist, and the empty
  string when every view file exists. When no feature id is the empty string, it carries
  the empty string exactly when every feature's view file exists.
\<close>

theorem next_feature_first_pending:
  assumes "subscript spec ''features'' = Inr (YSeq fs)"
    and "list_all2 (\<lambda>f i. subscript f ''id'' = Inr (YStr i)) fs ids"
  shows "snd (check_progress E spec) = None \<and>
     next_feature_outputs (fst (check_progress E spec)) =
       [case find (\<lambda>i. \<not> path_exists E (''ios/VoiceKoereq/Views/'' @ i @ ''View.swift'')) ids of
          None \<Rightarrow> '''' | Some i \<Rightarrow> i] \<and>
     ('''' \<notin> set ids \<longrightarrow>
        (next_feature_outputs (fst (check_progress E spec)) = [''''] \<longleftrightarrow>
         (\<forall>i \<in> set ids. path_exists E (''ios/VoiceKoereq/Views/'' @ i @ ''View.swift''))))"
proof -
  let ?missing = "\<lambda>i. \<not> path_exists E (''ios/VoiceKoereq/Views/'' @ i @ ''View.swift'')"
  have ok: "snd (check_progress E spec) = None"
    by (simp add: check_progress_ok [OF assms] Let_def)
  have out: "next_feature_outputs (fst (check_progress E spec)) =
       [case find ?missing ids of None \<Rightarrow> '''' | Some i \<Rightarrow> i]"
    by (rule next_feature_outputs_ok [OF assms])
  have "'''' \<notin> set ids \<Longrightarrow>
        ((case find ?missing ids of None \<Rightarrow> '''' | Some i \<Rightarrow> i) = '''' \<longleftrightarrow>
         (\<forall>i \<in> set ids. \<not> ?missing i))"
    by (rule first_blank_iff)
  with ok out show ?thesis by simp
qed

theorem next_feature_first_pending_witness:
  "next_feature_outputs (fst (check_progress env_F1 spec_F1_F2)) = [''F2'']"
  using next_feature_first_pending [of spec_F1_F2 features_F1_F2 "[''F1'', ''F2'']" env_F1]
  by (simp add: spec_F1_F2_def features_F1_F2_def env_F1_def)

text \<open>The claim as stated fails on a feature whose id is the empty string: with no view
  file at all, the line carries the empty string.\<close>

theorem next_feature_blank_id_counterexample:
  "snd (check_progress env_no_files spec_blank_id) = None \<and>
   next_feature_outputs (fst (check_progress env_no_files spec_blank_id)) = [''''] \<and>
   \<not> path_exists env_no_files (''ios/VoiceKoereq/Views/'' @ '''' @ ''View.swift'')"
  by (simp add: env_no_files_def env_F1_def spec_blank_id_def check_progress_def Let_def
      py_join_def view_path_def py_str_def next_feature_outputs_def
      progress_line_def progress_label_def implemented_label_def pending_label_def next_feature_line_def)

text \<open>
  Claim C9. The lists \<^verbatim>\<open>implemented_features\<close> and \<^verbatim>\<open>pending_features\<close> of the report are
  disjoint, each keeps the order of the features in the input file, and their lengths add up
  to \<^verbatim>\<open>total_features\<close>.
\<close>

theorem report_lists_partition:
  assumes "subscript spec ''features'' = Inr (YSeq fs)"
    and "list_all2 (\<lambda>f i. subscript f ''id'' = Inr (YStr i)) fs ids"
  shows "\<exists>tr rep impl pend. check_progress E spec = (tr, None) \<and>
           dumps tr = [(''progress.json'', rep)] \<and>
           map_of rep ''implemented_features'' = Some (PList (map YStr impl)) \<and>
           map_of rep ''pending_features'' = Some (PList (map YStr pend)) \<and>
           map_of rep ''total_features'' = Some (PNum (PInt (int (length impl + length pend)))) \<and>
           length fs = length impl + length pend \<and>
           set impl \<inter> set pend = {} \<and>
           subseq impl ids \<and> subseq pend ids"
proof -
  let ?ex = "\<lambda>i. path_exists E (''ios/VoiceKoereq/Views/'' @ i @ ''View.swift'')"
  have len: "length fs = length ids"
    using assms(2) by (rule list_all2_lengthD)
  have sum: "length ids = length (filter ?ex ids) + length (filter (\<lambda>i. \<not> ?ex i) ids)"
    by (rule sum_length_filter_compl [symmetric])
  have disj: "set (filter ?ex ids) \<inter> set (filter (\<lambda>i. \<not> ?ex i) ids) = {}"
    by auto
  show ?thesis
    apply (rule exI [of _ "fst (check_progress E spec)"])
    apply (rule exI [of _ "progress_data (length fs) (length (filter ?ex ids))
             (progress_of (length (filter ?ex ids)) (length fs))
             (map YStr (filter ?ex ids)) (map YStr (filter (\<lambda>i. \<not> ?ex i) ids))"])
    apply (rule exI [of _ "filter ?ex ids"])
    apply (rule exI [of _ "filter (\<lambda>i. \<not> ?ex i) ids"])
    using len sum disj
    apply (simp add: check_progress_ok [OF assms] Let_def progress_data_def del: sum_length_filter_compl)
    done
qed

theorem report_lists_partition_witness:
  "\<exists>tr rep impl pend. check_progress env_F1 spec_F1_F2 = (tr, None) \<and>
           dumps tr = [(''progress.json'', rep)] \<and>
           map_of rep ''implemented_features'' = Some (PList (map YStr impl)) \<and>
           map_of rep ''pending_features'' = Some (PList (map YStr pend)) \<and>
           map_of rep ''total_features'' = Some (PNum (PInt (int (length impl + length pend)))) \<and>
           length features_F1_F2 = length impl + length pend \<and>
           set impl \<inter> set pend = {} \<and>
           subseq impl [''F1'', ''F2''] \<and> subseq pend [''F1'', ''F2'']"
proof -
  have h1: "subscript spec_F1_F2 ''features'' = Inr (YSeq features_F1_F2)"
    by (simp add: spec_F1_F2_def)
  have h2: "list_all2 (\<lambda>f i. subscript f ''id'' = Inr (YStr i)) features_F1_F2 [''F1'', ''F2'']"
    by (simp add: features_F1_F2_def)
  show ?thesis
    by (rule report_lists_partition [OF h1 h2])
qed
section \<open>Properties of the issue creators\<close>









lemma outside_create_issues_loop:
  "outside ''gh'' (fst (create_issues_loop label_of E fs tr)) = outside ''gh'' tr"
proof (induction fs arbitrary: tr)
  case Nil
  then show ?case by simp
next
  case (Cons f fs)
  show ?case
  proof (cases "feature_fields f")
    case (Inl e)
    then show ?thesis by simp
  next
    case fields: (Inr flds)
    obtain i n d t p where flds: "flds = (i, n, d, t, p)"
      by (cases flds) auto
    let ?cmd = "[''gh'', ''issue'', ''create'',
        ''--title'', issue_title (py_str E i) (py_str E n),
        ''--body'', issue_body (py_str E d) (py_str E i) (py_str E n) (py_str E t) (py_str E p),
        ''--label'', label_of (py_str E t) (py_str E p)]"
    show ?thesis
    proof (cases "subprocess_run E tr ?cmd")
      case (Inl msg)
      with fields flds show ?thesis
        by (simp add: run_def Let_def outside_append)
    next
      case (Inr result)
      with fields flds show ?thesis
        by (cases "returncode result = 0") (simp_all add: run_def Let_def outside_append Cons.IH)
    qed
  qed
qed

lemma outside_create_feature_issues: "outside ''gh'' (fst (create_feature_issues E spec)) = []"
  by (simp add: create_feature_issues_def outside_create_issues_loop split: sum.splits)

lemma outside_create_feature_issues_simple:
  "outside ''gh'' (fst (create_feature_issues_simple E)) = []"
  by (simp add: create_feature_issues_simple_def outside_create_issues_loop)


section \<open>Properties of the batch trigger\<close>

lemma sleeps_after_success_step_ok:
  "succeeded r \<Longrightarrow> sleeps_after_success X \<Longrightarrow> X = [] \<or> (\<exists>c' r' Y. X = Call c' r' # Y) \<Longrightarrow>
   sleeps_after_success (Call c r # Pause 30 # X)"
  by auto

lemma sleeps_after_success_step_failed:
  "\<not> succeeded r \<Longrightarrow> sleeps_after_success X \<Longrightarrow> X = [] \<or> (\<exists>c' r' Y. X = Call c' r' # Y) \<Longrightarrow>
   sleeps_after_success (Call c r # X)"
  by auto

lemma trigger_loop_paced:
  assumes many: "1 < length ns"
  shows "\<exists>X. effects (fst (trigger_loop E ns rest tr)) = effects tr @ X \<and>
             sleeps_after_success X \<and> (X = [] \<or> (\<exists>c r Y. X = Call c r # Y))"
proof (induction rest arbitrary: tr)
  case Nil
  then show ?case by simp
next
  case (Cons n rest)
  let ?tr0 = "tr @ [Print (text_triggering @ py_str E n)]"
  let ?cmd = "[''gh'', ''issue'', ''comment'', py_str E n, ''--body'', claude_comment]"
  show ?case
  proof (cases "subprocess_run E ?tr0 ?cmd")
    case (Inl msg)
    then have "effects (fst (trigger_loop E ns (n # rest) tr)) = effects tr @ [Call ?cmd (Inl msg)]"
      by (simp add: run_def Let_def effects_append)
    then show ?thesis by auto
  next
    case (Inr result)
    show ?thesis
    proof (cases "returncode result = 0")
      case True
      let ?tr' = "?tr0 @ [Run ?cmd (Inr result)] @
          [Print (check_mark @ '' Comment added to Issue #'' @ py_str E n)] @
          [Print text_waiting, Sleep 30]"
      have step: "trigger_loop E ns (n # rest) tr = trigger_loop E ns rest ?tr'"
        using Inr True many by (simp add: run_def Let_def)
      have eff: "effects ?tr' = effects tr @ [Call ?cmd (Inr result), Pause 30]"
        by (simp add: effects_append)
      from Cons.IH [of ?tr'] obtain X where
        X: "effects (fst (trigger_loop E ns rest ?tr')) = effects ?tr' @ X"
          "sleeps_after_success X" "X = [] \<or> (\<exists>c r Y. X = Call c r # Y)"
        by blast
      have "succeeded (Inr result)"
        using True by (simp add: succeeded_def)
      then have "sleeps_after_success (Call ?cmd (Inr result) # Pause 30 # X)"
        using X(2,3) by (rule sleeps_after_success_step_ok)
      moreover have "effects (fst (trigger_loop E ns (n # rest) tr)) =
          effects tr @ (Call ?cmd (Inr result) # Pause 30 # X)"
        unfolding step X(1) eff by simp
      ultimately show ?thesis by blast
    next
      case False
      let ?tr' = "?tr0 @ [Run ?cmd (Inr result)] @
          [Print (cross_mark @ '' Failed to comment on Issue #'' @ py_str E n @ '': '' @
                  stderr result)]"
      have step: "trigger_loop E ns (n # rest) tr = trigger_loop E ns rest ?tr'"
        using Inr False by (simp add: run_def Let_def)
      have eff: "effects ?tr' = effects tr @ [Call ?cmd (Inr result)]"
        by (simp add: effects_append)
      from Cons.IH [of ?tr'] obtain X where
        X: "effects (fst (trigger_loop E ns rest ?tr')) = effects ?tr' @ X"
          "sleeps_after_success X" "X = [] \<or> (\<exists>c r Y. X = Call c r # Y)"
        by blast
      have "\<not> succeeded (Inr result)"
        using False by (simp add: succeeded_def)
      then have "sleeps_after_success (Call ?cmd (Inr result) # X)"
        using X(2,3) by (rule sleeps_after_success_step_failed)
      moreover have "effects (fst (trigger_loop E ns (n # rest) tr)) =
          effects tr @ (Call ?cmd (Inr result) # X)"
        unfolding step X(1) eff by simp
      ultimately show ?thesis by blast
    qed
  qed
qed

lemma trigger_loop_no_sleep:
  assumes few: "\<not> 1 < length ns"
  shows "\<exists>X. effects (fst (trigger_loop E ns rest tr)) = effects tr @ X \<and> list_all is_call X"
proof (induction rest arbitrary: tr)
  case Nil
  then show ?case by simp
next
  case (Cons n rest)
  let ?tr0 = "tr @ [Print (text_triggering @ py_str E n)]"
  let ?cmd = "[''gh'', ''issue'', ''comment'', py_str E n, ''--body'', claude_comment]"
  show ?case
  proof (cases "subprocess_run E ?tr0 ?cmd")
    case (Inl msg)
    then have "effects (fst (trigger_loop E ns (n # rest) tr)) = effects tr @ [Call ?cmd (Inl msg)]"
      by (simp add: run_def Let_def effects_append)
    then show ?thesis by auto
  next
    case (Inr result)
    obtain tr' where step: "trigger_loop E ns (n # rest) tr = trigger_loop E ns rest tr'"
      and eff: "effects tr' = effects tr @ [Call ?cmd (Inr result)]"
      using Inr few
      by (cases "returncode result = 0") (simp_all add: run_def Let_def effects_append)
    from Cons.IH [of tr'] obtain X where
      "effects (fst (trigger_loop E ns rest tr')) = effects tr' @ X" "list_all is_call X"
      by blast
    then have "effects (fst (trigger_loop E ns (n # rest) tr)) =
        effects tr @ (Call ?cmd (Inr result) # X) \<and> list_all is_call (Call ?cmd (Inr result) # X)"
      unfolding step eff by simp
    then show ?thesis by blast
  qed
qed




lemma outside_trigger_loop:
  "outside ''gh'' (fst (trigger_loop E ns rest tr)) = outside ''gh'' tr"
proof (induction rest arbitrary: tr)
  case Nil
  then show ?case by simp
next
  case (Cons n rest)
  let ?p = "Print (text_triggering @ py_str E n)"
  let ?cmd = "[''gh'', ''issue'', ''comment'', py_str E n, ''--body'', claude_comment]"
  show ?case
  proof (cases "subprocess_run E (tr @ [?p]) ?cmd")
    case (Inl msg)
    then show ?thesis
      by (simp add: run_def Let_def outside_append)
  next
    case (Inr result)
    then show ?thesis
      by (cases "returncode result = 0"; cases "1 < length ns")
        (simp_all add: run_def Let_def outside_append Cons.IH)
  qed
qed

lemma outside_get_unimplemented_issues:
  "outside ''gh'' (fst (get_unimplemented_issues E tr)) = outside ''gh'' tr"
proof (cases "subprocess_run E tr
    [''gh'', ''issue'', ''list'', ''--json'', ''number,title,labels'', ''--limit'', ''50'']")
  case (Inl msg)
  then show ?thesis
    by (simp add: get_unimplemented_issues_def run_def Let_def outside_append)
next
  case (Inr result)
  then show ?thesis
    by (cases "returncode result = 0")
      (simp_all add: get_unimplemented_issues_def run_def Let_def outside_append
        split: sum.splits)
qed

lemma outside_trigger_claude_on_issues:
  "outside ''gh'' (fst (trigger_claude_on_issues E ns tr)) = outside ''gh'' tr"
  by (simp add: trigger_claude_on_issues_def outside_trigger_loop)

lemma outside_trigger_main: "outside ''gh'' (fst (trigger_main E argv)) = []"
proof (cases "length argv > 1")
  case True
  show ?thesis
  proof (cases "parse_numbers E (split_from [] (argv ! 1))")
    case (Inl e)
    with True show ?thesis by (simp add: trigger_main_def)
  next
    case (Inr ns)
    with True show ?thesis by (simp add: trigger_main_def outside_trigger_claude_on_issues)
  qed
next
  case False
  obtain tr r where g: "get_unimplemented_issues E [] = (tr, r)"
    by (cases "get_unimplemented_issues E []") auto
  then have tr: "outside ''gh'' tr = []"
    using outside_get_unimplemented_issues [of E "[]"] by simp
  show ?thesis
  proof (cases r)
    case (Inl e)
    with False g tr show ?thesis
      by (simp add: trigger_main_def)
  next
    case (Inr issue_numbers)
    let ?tr1 = "tr @ [Print (text_found @ dec_nat (length issue_numbers) @
        '' unimplemented issues: '' @ py_str E (YSeq issue_numbers))]"
    show ?thesis
    proof (cases "issue_numbers = []")
      case True
      with False g tr Inr show ?thesis
        by (simp add: trigger_main_def outside_append)
    next
      case nonempty: False
      show ?thesis
      proof (cases "answer E ?tr1 confirm_prompt")
        case (Inl e)
        with False g tr Inr nonempty show ?thesis
          by (simp add: trigger_main_def outside_append Let_def)
      next
        case (Inr confirm)
        with False g tr \<open>r = Inr issue_numbers\<close> nonempty show ?thesis
          by (simp add: trigger_main_def outside_append Let_def outside_trigger_claude_on_issues)
      qed
    qed
  qed
qed

text \<open>
  Claim C4, as the code has it. For a list of more than one issue number, a call that
  succeeded and has a successor is followed by a sleep of 30 seconds and then by that
  successor, a call that did not succeed is followed by its successor with no sleep, and no
  sleep comes before the first call; for a list of at most one issue number there is no sleep
  at all. What follows the last call is left open.
\<close>

theorem trigger_sleeps:
  "(1 < length issue_numbers \<longrightarrow>
      sleeps_after_success (effects (fst (trigger_claude_on_issues E issue_numbers [])))) \<and>
   (length issue_numbers \<le> 1 \<longrightarrow>
      list_all is_call (effects (fst (trigger_claude_on_issues E issue_numbers []))))"
proof (intro conjI impI)
  assume "1 < length issue_numbers"
  from trigger_loop_paced [OF this, of E issue_numbers "[]"]
  show "sleeps_after_success (effects (fst (trigger_claude_on_issues E issue_numbers [])))"
    by (auto simp: trigger_claude_on_issues_def)
next
  assume "length issue_numbers \<le> 1"
  then have "\<not> 1 < length issue_numbers" by simp
  from trigger_loop_no_sleep [OF this, of E issue_numbers "[]"]
  show "list_all is_call (effects (fst (trigger_claude_on_issues E issue_numbers [])))"
    by (auto simp: trigger_claude_on_issues_def)
qed

theorem trigger_sleeps_witness:
  "sleeps_after_success (effects (fst (trigger_claude_on_issues env_F1 [YInt 1, YInt 2] []))) \<and>
   list_all is_call (effects (fst (trigger_claude_on_issues env_F1 [YInt 1] [])))"
  using trigger_sleeps [of "[YInt 1, YInt 2]" env_F1] trigger_sleeps [of "[YInt 1]" env_F1]
  by simp

text \<open>The claim as stated fails when the comment on issue 1 fails and the comment on issue 2
  succeeds: no sleep lies between the two calls, and one follows the last.\<close>

theorem trigger_sleeps_counterexample:
  "effects (fst (trigger_claude_on_issues env_fail_issue_1 [YInt 1, YInt 2] [])) =
     [Call [''gh'', ''issue'', ''comment'', ''1'', ''--body'', claude_comment]
        (Inr \<lparr> returncode = 1, stdout = [], stderr = ''no'' \<rparr>),
      Call [''gh'', ''issue'', ''comment'', ''2'', ''--body'', claude_comment]
        (Inr \<lparr> returncode = 0, stdout = [], stderr = [] \<rparr>),
      Pause 30] \<and>
   \<not> sleeps_only_between_calls
       (effects (fst (trigger_claude_on_issues env_fail_issue_1 [YInt 1, YInt 2] [])))"
  by (simp add: trigger_claude_on_issues_def env_fail_issue_1_def env_F1_def run_def Let_def
      py_str_def dec_int_def effects_append)
section \<open>Properties of the dashboard\<close>

lemma categorize_buckets:
  "list_all2 (\<lambda>issue ls. label_names issue = Inr ls) issues lss \<Longrightarrow>
   categorize issues a b c =
     Inr (a @ map fst (filter (\<lambda>(x, ls). bucket_of ls = NotStarted) (zip issues lss)),
          b @ map fst (filter (\<lambda>(x, ls). bucket_of ls = ReadyToImplement) (zip issues lss)),
          c @ map fst (filter (\<lambda>(x, ls). bucket_of ls = Implemented) (zip issues lss)))"
  by (induction issues lss arbitrary: a b c rule: list_all2_induct)
    (auto simp: bucket_of_def)

lemma three_way_count:
  "length (filter (\<lambda>(x, ls). bucket_of ls = NotStarted) ps) +
   length (filter (\<lambda>(x, ls). bucket_of ls = ReadyToImplement) ps) +
   length (filter (\<lambda>(x, ls). bucket_of ls = Implemented) ps) = length ps"
  by (induction ps) (auto simp: bucket_of_def)

text \<open>
  Claim C5. Of the issues the dashboard fetched, each with its list of label names, every
  issue goes into exactly one of the three lists: \<open>implemented\<close> when it has the label
  \<^verbatim>\<open>implemented\<close>, \<open>ready_to_implement\<close> when it has not but has the label
  \<^verbatim>\<open>ready-to-implement\<close>, \<open>not_started\<close> otherwise; the three lengths add up to the number of
  issues.
\<close>

theorem dashboard_buckets:
  assumes "list_all2 (\<lambda>issue ls. label_names issue = Inr ls) issues lss"
  shows "\<exists>not_started ready_to_implement implemented.
     categorize issues [] [] [] = Inr (not_started, ready_to_implement, implemented) \<and>
     implemented = map fst (filter (\<lambda>(x, ls). YStr ''implemented'' \<in> set ls) (zip issues lss)) \<and>
     ready_to_implement = map fst (filter (\<lambda>(x, ls). YStr ''implemented'' \<notin> set ls \<and>
         YStr ''ready-to-implement'' \<in> set ls) (zip issues lss)) \<and>
     not_started = map fst (filter (\<lambda>(x, ls). YStr ''implemented'' \<notin> set ls \<and>
         YStr ''ready-to-implement'' \<notin> set ls) (zip issues lss)) \<and>
     length implemented + length ready_to_implement + length not_started = length issues"
proof -
  have len: "length (zip issues lss) = length issues"
    using assms by (simp add: list_all2_lengthD)
  have i: "(\<lambda>(x, ls). bucket_of ls = Implemented) = (\<lambda>(x :: yaml, ls). YStr ''implemented'' \<in> set ls)"
    by (auto simp: bucket_of_def fun_eq_iff)
  have r: "(\<lambda>(x, ls). bucket_of ls = ReadyToImplement) =
      (\<lambda>(x :: yaml, ls). YStr ''implemented'' \<notin> set ls \<and> YStr ''ready-to-implement'' \<in> set ls)"
    by (auto simp: bucket_of_def fun_eq_iff)
  have n: "(\<lambda>(x, ls). bucket_of ls = NotStarted) =
      (\<lambda>(x :: yaml, ls). YStr ''implemented'' \<notin> set ls \<and> YStr ''ready-to-implement'' \<notin> set ls)"
    by (auto simp: bucket_of_def fun_eq_iff)
  from three_way_count [of "zip issues lss"] len
  have "length (filter (\<lambda>(x, ls). bucket_of ls = Implemented) (zip issues lss)) +
        length (filter (\<lambda>(x, ls). bucket_of ls = ReadyToImplement) (zip issues lss)) +
        length (filter (\<lambda>(x, ls). bucket_of ls = NotStarted) (zip issues lss)) = length issues"
    by simp
  then show ?thesis
    unfolding categorize_buckets [OF assms] i r n by simp
qed

theorem dashboard_buckets_witness:
  "categorize [issue_done, issue_new] [] [] [] = Inr ([issue_new], [], [issue_done])"
proof -
  have h: "list_all2 (\<lambda>issue ls. label_names issue = Inr ls) [issue_done, issue_new]
             [[YStr ''ready-to-implement'', YStr ''implemented''], []]"
    by (simp add: issue_done_def issue_new_def label_names_def)
  show ?thesis
    using dashboard_buckets [OF h] by auto
qed

text \<open>
  Claim C10. When the command that lists the issues returns 0 and its output is the empty
  list, the dashboard ends with an uncaught ZeroDivisionError, raised by the division of
  line 46: after its header it has printed the heading of the statistics and the total of 0,
  and it prints none of the counts, lists, pull requests and actions of the summary.
\<close>

theorem empty_list_zero_division:
  assumes "subprocess_run E (dashboard_header E) issue_list_cmd = Inr result"
    and "returncode result = 0"
    and "json_loads E (stdout result) = Inr (YSeq [])"
  shows "show_dashboard E =
    (dashboard_header E @
       [Run issue_list_cmd (Inr result),
        Print text_statistics,
        Print (text_total_issues @ ''0'')],
     Some ZeroDivisionError)"
  using assms
  by (simp add: show_dashboard_def run_def Let_def print_statistics_def and_then_def)

theorem empty_list_zero_division_witness:
  "snd (show_dashboard env_F1) = Some ZeroDivisionError \<and>
   prints (fst (show_dashboard env_F1)) =
     prints (dashboard_header env_F1) @ [text_statistics, text_total_issues @ ''0'']"
proof -
  let ?r = "\<lparr> returncode = 0, stdout = [], stderr = [] \<rparr>"
  have h1: "subprocess_run env_F1 (dashboard_header env_F1) issue_list_cmd = Inr ?r"
    by (simp add: env_F1_def)
  have h2: "returncode ?r = 0"
    by simp
  have h3: "json_loads env_F1 (stdout ?r) = Inr (YSeq [])"
    by (simp add: env_F1_def)
  show ?thesis
    unfolding empty_list_zero_division [OF h1 h2 h3] by (simp add: prints_append)
qed

lemma outside_print_issues: "outside ''gh'' (fst (print_issues E xs tr)) = outside ''gh'' tr"
proof (induction xs arbitrary: tr)
  case Nil
  then show ?case by simp
next
  case (Cons x xs)
  then show ?case
    by (cases "number_and_title E x") (simp_all add: outside_append)
qed

lemma outside_print_prs_loop: "outside ''gh'' (fst (print_prs_loop E xs tr)) = outside ''gh'' tr"
proof (induction xs arbitrary: tr)
  case Nil
  then show ?case by simp
next
  case (Cons x xs)
  then show ?case
    by (cases "pr_line E x") (simp_all add: outside_append)
qed

lemma outside_print_statistics:
  "outside ''gh'' tr = [] \<Longrightarrow> outside ''gh'' (fst (print_statistics E n a b c tr)) = []"
  by (simp add: print_statistics_def Let_def outside_append)

lemma outside_print_details:
  assumes "outside ''gh'' tr = []"
  shows "outside ''gh'' (fst (print_details E a b c tr)) = []"
  unfolding print_details_def Let_def
  by (intro outside_and_then outside_if) (simp_all add: outside_print_issues outside_append assms)

lemma outside_print_actions:
  assumes "outside ''gh'' tr = []"
  shows "outside ''gh'' (fst (print_actions E a b tr)) = []"
  unfolding print_actions_def Let_def
  by (intro outside_and_then)
    (simp_all add: outside_append assms split: list.splits sum.splits)

lemma outside_print_prs:
  assumes "outside ''gh'' tr = []"
  shows "outside ''gh'' (fst (print_prs E tr)) = []"
proof (cases "subprocess_run E (tr @ [Print text_latest_prs])
    [''gh'', ''pr'', ''list'', ''--json'', ''number,title,state,createdAt'', ''--limit'', ''5'']")
  case (Inl msg)
  then show ?thesis
    using assms by (simp add: print_prs_def run_def Let_def outside_append)
next
  case (Inr pr_result)
  show ?thesis
    unfolding print_prs_def run_def Let_def Inr prod.case sum.case
    by (rule outside_and_then)
      (simp_all add: assms outside_append outside_print_prs_loop split: sum.splits)
qed

lemma outside_show_dashboard: "outside ''gh'' (fst (show_dashboard E)) = []"
proof (cases "subprocess_run E (dashboard_header E) issue_list_cmd")
  case (Inl msg)
  then show ?thesis
    by (simp add: show_dashboard_def run_def Let_def outside_append dashboard_header_def issue_list_cmd_def)
next
  case (Inr result)
  let ?tr1 = "dashboard_header E @ [Run issue_list_cmd (Inr result)]"
  have tr1: "outside ''gh'' ?tr1 = []"
    by (simp add: outside_append dashboard_header_def issue_list_cmd_def)
  have rest: "outside ''gh'' (fst (and_then (print_statistics E n a b c ?tr1) (\<lambda>tr2.
          and_then (print_details E a b c tr2) (\<lambda>tr3.
          and_then (print_prs E tr3) (\<lambda>tr4. print_actions E a b tr4))))) = []" for n a b c
    using tr1
    by (intro outside_and_then outside_print_statistics outside_print_details outside_print_prs
        outside_print_actions)
  show ?thesis
    unfolding show_dashboard_def run_def Let_def Inr prod.case sum.case
    using tr1 rest
    by (simp add: outside_append issue_list_cmd_def split: sum.splits prod.splits)
qed

lemma outside_milestone_loop: "outside ''gh'' (fst (milestone_loop E ms tr)) = outside ''gh'' tr"
proof (induction ms arbitrary: tr)
  case Nil
  then show ?case by simp
next
  case (Cons m ms)
  obtain title description due_on where m: "m = (title, description, due_on)"
    by (cases m) auto
  let ?cmd = "[''gh'', ''api'', ''repos/:owner/:repo/milestones'', ''-f'', ''title='' @ title,
      ''-f'', ''description='' @ description, ''-f'', ''due_on='' @ due_on]"
  show ?case
    by (cases "subprocess_run E tr ?cmd") (simp_all add: m run_def Let_def outside_append Cons.IH)
qed

lemma outside_create_issues_main: "outside ''gh'' (fst (create_issues_main E argv)) = []"
  by (simp add: create_issues_main_def create_milestone_def outside_milestone_loop
      outside_show_dashboard)
section \<open>Properties of the sync script\<close>

lemma outside_sync_loop: "outside ''git'' (sync_loop E bs tr) = outside ''git'' tr"
proof (induction bs arbitrary: tr)
  case Nil
  then show ?case by simp
next
  case (Cons b bs)
  obtain branch feature_id feature_name where b: "b = (branch, feature_id, feature_name)"
    by (cases b) auto
  let ?tr0 = "tr @ [Print (text_syncing @ feature_id @ '' ('' @ feature_name @ '') from '' @ branch)]"
  let ?ios = "[''git'', ''checkout'', ''origin/'' @ branch, ''--'',
      ''ios/VoiceKoereq/**/'' @ feature_id @ ''*'', ''ios/VoiceKoereqTests/'' @ feature_id @ ''*'']"
  let ?android = "[''git'', ''checkout'', ''origin/'' @ branch, ''--'',
      ''android/**/'' @ feature_id @ ''*'']"
  obtain o1 tr1 where r1: "run E ?tr0 ?ios = (o1, tr1)"
    by (cases "run E ?tr0 ?ios") auto
  have d1: "outside ''git'' tr1 = outside ''git'' tr"
    using outside_run [OF r1] by (simp add: outside_append)
  show ?case
  proof (cases o1)
    case (Inl msg)
    show ?thesis
      unfolding b sync_loop.simps Let_def r1 prod.case Inl sum.case
      by (simp add: Cons.IH outside_append d1)
  next
    case (Inr result1)
    let ?tr2 = "if returncode result1 = 0
      then tr1 @ [Print (''  '' @ check_mark @ '' iOS files synced'')] else tr1"
    obtain o2 tr3 where r2: "run E ?tr2 ?android = (o2, tr3)"
      by (cases "run E ?tr2 ?android") auto
    have d3: "outside ''git'' tr3 = outside ''git'' tr"
      using outside_run [OF r2] by (simp add: outside_append d1)
    show ?thesis
      unfolding b sync_loop.simps Let_def r1 prod.case Inr sum.case r2
      by (cases o2) (simp_all add: Cons.IH outside_append d3)
  qed
qed

lemma outside_sync: "outside ''git'' (fst (sync_claude_implementations E)) = []"
proof -
  obtain o1 tr1 where r1: "run E [] [''git'', ''branch'', ''--show-current''] = (o1, tr1)"
    by (cases "run E [] [''git'', ''branch'', ''--show-current'']") auto
  from outside_run [OF r1, of "''git''"] have tr1: "outside ''git'' tr1 = []"
    by simp
  let ?tr2 = "sync_loop E claude_branches tr1"
  have tr2: "outside ''git'' ?tr2 = []"
    by (simp add: outside_sync_loop tr1)
  obtain o3 tr3 where r3: "run E ?tr2 [''git'', ''add'', ''.''] = (o3, tr3)"
    by (cases "run E ?tr2 [''git'', ''add'', ''.'']") auto
  from outside_run [OF r3, of "''git''"] have tr3: "outside ''git'' tr3 = []"
    by (simp add: tr2)
  obtain o4 tr4 where r4: "run E tr3 [''git'', ''status'', ''--short''] = (o4, tr4)"
    by (cases "run E tr3 [''git'', ''status'', ''--short'']") auto
  from outside_run [OF r4, of "''git''"] have tr4: "outside ''git'' tr4 = []"
    by (simp add: tr3)
  show ?thesis
    unfolding sync_claude_implementations_def r1 Let_def
    by (cases o1; cases o3; cases o4) (simp_all add: r3 r4 tr1 tr3 tr4 outside_append)
qed
section \<open>Properties of all scripts\<close>

lemma dumps_check_progress:
  "dumps (fst (check_progress E spec)) = [] \<or>
   (\<exists>d. dumps (fst (check_progress E spec)) = [(''progress.json'', d)])"
  by (simp add: check_progress_def Let_def dumps_append split: sum.splits prod.splits)




lemma commands_check_progress: "commands (fst (check_progress E spec)) = []"
  by (simp add: check_progress_def Let_def commands_append split: sum.splits prod.splits)

lemma files_changed_check_progress:
  "files_changed E (fst (check_progress E spec)) = [] \<or>
   files_changed E (fst (check_progress E spec)) = [''progress.json'']"
  unfolding files_changed_def changed_after_no_commands [OF commands_check_progress]
  using dumps_check_progress [of E spec] by auto

text \<open>
  Claim C7, as the code has it. The progress checker starts no program and changes no file
  but \<^verbatim>\<open>progress.json\<close>, which it writes at most once. The issue creators, the dashboard and
  the milestone creator and the batch trigger write no file themselves and start no program
  but \<^verbatim>\<open>gh\<close>: they change no local file unless \<^verbatim>\<open>gh\<close> does. The sync script writes no file
  itself and starts no program but \<^verbatim>\<open>git\<close>.
\<close>

theorem scripts_local_writes:
  "(files_changed E (fst (check_progress E spec)) = [] \<or>
    files_changed E (fst (check_progress E spec)) = [''progress.json'']) \<and>
   commands (fst (check_progress E spec)) = [] \<and>
   only_program ''gh'' (fst (create_feature_issues E spec)) \<and>
   only_program ''gh'' (fst (create_feature_issues_simple E)) \<and>
   only_program ''gh'' (fst (create_issues_main E argv)) \<and>
   only_program ''gh'' (fst (trigger_main E argv)) \<and>
   only_program ''git'' (fst (sync_claude_implementations E)) \<and>
   ((\<forall>tr cmd. take 1 cmd = [''gh''] \<longrightarrow> command_writes E tr cmd = []) \<longrightarrow>
      files_changed E (fst (create_feature_issues E spec)) = [] \<and>
      files_changed E (fst (create_feature_issues_simple E)) = [] \<and>
      files_changed E (fst (create_issues_main E argv)) = [] \<and>
      files_changed E (fst (trigger_main E argv)) = [])"
proof -
  have "files_changed E (fst (create_feature_issues E spec)) = [] \<and>
      files_changed E (fst (create_feature_issues_simple E)) = [] \<and>
      files_changed E (fst (create_issues_main E argv)) = [] \<and>
      files_changed E (fst (trigger_main E argv)) = []"
    if "\<forall>tr cmd. take 1 cmd = [''gh''] \<longrightarrow> command_writes E tr cmd = []"
    unfolding files_changed_def
    using changed_after_only_program [OF that]
    by (simp add: outside_create_feature_issues outside_create_feature_issues_simple
        outside_create_issues_main outside_trigger_main)
  then show ?thesis
    using files_changed_check_progress [of E spec]
    by (simp add: commands_check_progress only_program_outside outside_create_feature_issues
        outside_create_feature_issues_simple outside_create_issues_main outside_trigger_main
        outside_sync)
qed

theorem scripts_local_writes_witness:
  "files_changed env_F1 (fst (check_progress env_F1 spec_F1_F2)) = [''progress.json''] \<and>
   files_changed env_F1 (fst (create_feature_issues env_F1 spec_F1_F2)) = [] \<and>
   files_changed env_F1 (fst (create_feature_issues_simple env_F1)) = [] \<and>
   files_changed env_F1 (fst (create_issues_main env_F1 [''create_issues.py'', ''milestone''])) = [] \<and>
   files_changed env_F1 (fst (trigger_main env_F1 [''trigger_claude_batch.py'', ''1,2''])) = []"
proof -
  have "files_changed env_F1 (fst (check_progress env_F1 spec_F1_F2)) = [''progress.json'']"
    by (simp add: files_changed_def check_progress_def spec_F1_F2_def features_F1_F2_def
        py_join_def Let_def)
  moreover have "\<forall>tr cmd. take 1 cmd = [''gh''] \<longrightarrow> command_writes env_F1 tr cmd = []"
    by (simp add: env_F1_def)
  ultimately show ?thesis
    using scripts_local_writes [of env_F1 spec_F1_F2 "[''create_issues.py'', ''milestone'']"]
      scripts_local_writes [of env_F1 spec_F1_F2 "[''trigger_claude_batch.py'', ''1,2'']"]
    by simp
qed

text \<open>
  The sync script does change local files: where the branch of issue 2 holds the view of
  feature F1, its \<^verbatim>\<open>git checkout\<close> writes that file into the working tree, although the script
  writes no file itself.
\<close>

theorem sync_changes_working_tree_counterexample:
  "dumps (fst (sync_claude_implementations env_git)) = [] \<and>
   files_changed env_git (fst (sync_claude_implementations env_git)) =
     [''ios/VoiceKoereq/Views/F1View.swift'']"
  by (simp add: files_changed_def sync_claude_implementations_def claude_branches_def run_def
      Let_def env_git_def env_F1_def)

end
